theory Spec2Isabelle
  imports Main "HOL-Library.Sublist" "HOL-Library.Multiset"
begin

section \<open>Multilingual admin tabs (staticfiles/admin/js/multilang.js)\<close>

text \<open>
  The script runs once when the document is ready. It collects the form elements carrying
  the class \<open>lang-tab\<close>, sorts them by their \<open>lang-<code>\<close> class, builds one tab
  header and one content panel per language that has a group, moves the groups' content
  into the panels, hides the emptied groups, and activates one tab. Tabs are switched by
  clicks (which also store the choice in \<open>localStorage\<close>), by Ctrl/Cmd+1 and Ctrl/Cmd+2,
  and by a deferred scan for validation errors.

  The embedding keeps the document as an explicit state that every function takes and
  returns. jQuery collections are lists in document order. Every element of the page has
  an identity; a jQuery reference to an element is that identity, which the element keeps
  when it is moved.
\<close>

subsection \<open>Strings\<close>

text \<open>
  JavaScript's \<open>s.split(' ')\<close>: the pieces between single space characters; the empty
  string gives one empty piece, two adjacent spaces give an empty piece between them.
\<close>

fun split_on :: "(char \<Rightarrow> bool) \<Rightarrow> string \<Rightarrow> string list" where
  "split_on sep [] = [[]]"
| "split_on sep (c # cs) =
     (if sep c then [] # split_on sep cs
      else (case split_on sep cs of
              [] \<Rightarrow> [[c]]
            | w # ws \<Rightarrow> (c # w) # ws))"

definition js_split_space :: "string \<Rightarrow> string list" where
  "js_split_space s = split_on (\<lambda>c. c = CHR '' '') s"

text \<open>
  The class selector \<open>.name\<close> of jQuery matches an element whose class attribute has
  \<open>name\<close> among its tokens, the tokens being separated by ASCII whitespace (space, tab,
  line feed, form feed, carriage return).
\<close>

definition is_html_space :: "char \<Rightarrow> bool" where
  "is_html_space c =
     (c = CHR '' '' \<or> c = CHR 0x09 \<or> c = CHR 0x0A \<or> c = CHR 0x0C \<or> c = CHR 0x0D)"

definition class_tokens :: "string \<Rightarrow> string list" where
  "class_tokens s = filter (\<lambda>w. w \<noteq> []) (split_on is_html_space s)"

definition has_class :: "string \<Rightarrow> string \<Rightarrow> bool" where
  "has_class name cls = (name \<in> set (class_tokens cls))"

text \<open>
  \<open>s.replace(pat, rep)\<close> with a string pattern replaces the first occurrence only.
\<close>

fun js_replace :: "string \<Rightarrow> string \<Rightarrow> string \<Rightarrow> string" where
  "js_replace pat rep [] = (if pat = [] then rep else [])"
| "js_replace pat rep (c # cs) =
     (if prefix pat (c # cs) then rep @ drop (length pat) (c # cs)
      else c # js_replace pat rep cs)"

subsection \<open>The document\<close>

text \<open>
  An element of the page: its identity, its class attribute, whether \<open>.hide()\<close> has set
  \<open>display: none\<close> on it, and its child elements. The identities of the elements of a
  document are pairwise distinct (\<open>well_formed\<close> below).
\<close>

datatype node =
  Node (node_id: nat) (node_class: string) (node_hidden: bool) (node_kids: "node list")

text \<open>The elements of a forest with all their descendants, in document order.\<close>

fun all_nodes :: "node list \<Rightarrow> node list" where
  "all_nodes [] = []"
| "all_nodes (Node i cls hid kids # rest) =
     Node i cls hid kids # all_nodes kids @ all_nodes rest"

text \<open>
  \<open>$('.name')\<close> on a forest, and \<open>root.find('.name')\<close> on the children of the root: the
  elements with the class, at any depth, in document order.
\<close>

fun find_class :: "string \<Rightarrow> node list \<Rightarrow> node list" where
  "find_class name [] = []"
| "find_class name (Node i cls hid kids # rest) =
     (if has_class name cls then [Node i cls hid kids] else [])
       @ find_class name kids @ find_class name rest"

text \<open>
  A subtree after every descendant with the class has been moved out of it.
\<close>

fun without_class :: "string \<Rightarrow> node list \<Rightarrow> node list" where
  "without_class name [] = []"
| "without_class name (Node i cls hid kids # rest) =
     (if has_class name cls then without_class name rest
      else Node i cls hid (without_class name kids) # without_class name rest)"

text \<open>
  \<open>target.append(nodes)\<close> moves the selected nodes one after the other, in document
  order, to the end of the target. A selected node nested in another selected node
  is first carried along with its ancestor and then taken out of it, so each selected node
  arrives without its selected descendants.
\<close>

fun detached :: "string \<Rightarrow> node \<Rightarrow> node" where
  "detached name (Node i cls hid kids) = Node i cls hid (without_class name kids)"

text \<open>
  Lines 73 to 75 for the form element with identity \<open>fieldset\<close>, wherever it is in the
  forest: its content (its \<open>.module\<close> descendants when it has any, its children otherwise)
  leaves it, and it is hidden. The result is the forest afterwards and the content, which
  the caller appends to the panel. A forest without the element is left as it is.
\<close>

fun take_content :: "nat \<Rightarrow> node list \<Rightarrow> node list \<times> node list" where
  "take_content fieldset [] = ([], [])"
| "take_content fieldset (Node i cls hid kids # rest) =
     (if i = fieldset then
        (let found = find_class ''module'' kids;
             content = (if length found > 0 then map (detached ''module'') found else kids);
             remaining = (if length found > 0 then without_class ''module'' kids else [])
         in (Node i cls True remaining # rest, content))
      else
        (case take_content fieldset kids of
           (kids', content1) \<Rightarrow>
             (case take_content fieldset rest of
                (rest', content2) \<Rightarrow> (Node i cls hid kids' # rest', content1 @ content2))))"

text \<open>
  A tab header \<open><div class="lang-tab-header lang-en" data-lang="en">English</div>\<close> and a
  content panel \<open><div class="lang-tab-content" data-lang="en">\<close>. The flag \<open>active\<close> says
  that the element carries the CSS class \<open>active\<close>. The class token \<open>lang-tab-header\<close> is
  not the token \<open>lang-tab\<close>, so a header is never one of the marked form elements.
\<close>

record header =
  h_class :: string
  h_lang :: string
  h_text :: string
  h_active :: bool

record panel =
  p_lang :: string
  p_active :: bool
  p_kids :: "node list"

text \<open>
  The program state.
  \<^item> \<open>elements\<close>: the elements of the page in document order, as a forest, apart from
    the tab container and what is in it.
  \<^item> \<open>tab_headers\<close> and \<open>tab_contents\<close>: the elements matched by
    \<open>$('.lang-tab-header')\<close> and \<open>$('.lang-tab-content')\<close>, in document order, the panels
    with the elements that have been moved into them. The page has none when it is loaded;
    the script inserts them, in their container, before the first marked element.
  \<^item> \<open>localStorage\<close>: the browser's storage, which is taken to be available (its
    \<open>getItem\<close> and \<open>setItem\<close> do not raise).
\<close>

record state =
  elements :: "node list"
  tab_headers :: "header list"
  tab_contents :: "panel list"
  localStorage :: "string \<rightharpoonup> string"

datatype error = TypeError

text \<open>
  All elements of the document other than the headers and panels themselves: those inside
  the panels, which stand before the first marked element of the page, and the others.
\<close>

definition document :: "state \<Rightarrow> node list" where
  "document st = concat (map p_kids (tab_contents st)) @ elements st"

text \<open>\<open>take_content\<close> on the content of the panels.\<close>

fun take_in_panels :: "nat \<Rightarrow> panel list \<Rightarrow> panel list \<times> node list" where
  "take_in_panels fieldset [] = ([], [])"
| "take_in_panels fieldset (p # ps) =
     (case take_content fieldset (p_kids p) of
        (kids', content1) \<Rightarrow>
          (case take_in_panels fieldset ps of
             (ps', content2) \<Rightarrow> (p\<lparr>p_kids := kids'\<rparr> # ps', content1 @ content2)))"

subsection \<open>Persisted selection\<close>

definition saveSelectedTab :: "string \<Rightarrow> state \<Rightarrow> state" where
  "saveSelectedTab tabId st =
     st\<lparr>localStorage := (localStorage st)(''selectedLangTab'' \<mapsto> tabId)\<rparr>"

text \<open>
  \<open>localStorage.getItem(key) || 'en'\<close>: \<open>getItem\<close> gives \<open>null\<close> for an absent key, and
  both \<open>null\<close> and the empty string are falsy.
\<close>

definition getSelectedTab :: "state \<Rightarrow> string" where
  "getSelectedTab st =
     (case localStorage st ''selectedLangTab'' of
        None \<Rightarrow> ''en''
      | Some v \<Rightarrow> if v = [] then ''en'' else v)"

subsection \<open>Switching tabs\<close>

text \<open>
  The attribute selector \<open>[data-lang="code"]\<close> selects the elements whose \<open>data-lang\<close>
  attribute is the string \<open>code\<close>. The script builds the selector by string
  concatenation; this reading of it is jQuery's for every code without a double quote or
  a backslash, which is what the script's own callers pass and what it stores.
\<close>

definition removeClass_active_headers :: "header list \<Rightarrow> header list" where
  "removeClass_active_headers hs = map (\<lambda>h. h\<lparr>h_active := False\<rparr>) hs"

definition removeClass_active_contents :: "panel list \<Rightarrow> panel list" where
  "removeClass_active_contents ps = map (\<lambda>p. p\<lparr>p_active := False\<rparr>) ps"

definition addClass_active_headers :: "string \<Rightarrow> header list \<Rightarrow> header list" where
  "addClass_active_headers langCode hs =
     map (\<lambda>h. if h_lang h = langCode then h\<lparr>h_active := True\<rparr> else h) hs"

definition addClass_active_contents :: "string \<Rightarrow> panel list \<Rightarrow> panel list" where
  "addClass_active_contents langCode ps =
     map (\<lambda>p. if p_lang p = langCode then p\<lparr>p_active := True\<rparr> else p) ps"

definition switchToTab :: "string \<Rightarrow> state \<Rightarrow> state" where
  "switchToTab langCode st =
     (let st1 = st\<lparr>tab_headers := removeClass_active_headers (tab_headers st)\<rparr>;
          st2 = st1\<lparr>tab_contents := removeClass_active_contents (tab_contents st1)\<rparr>;
          st3 = st2\<lparr>tab_headers := addClass_active_headers langCode (tab_headers st2)\<rparr>
      in st3\<lparr>tab_contents := addClass_active_contents langCode (tab_contents st3)\<rparr>)"

subsection \<open>Building the tabs\<close>

record language =
  lang_code :: string
  lang_name :: string
  lang_class :: string

text \<open>The second display name is the UTF-8 encoding of the Macedonian word.\<close>

definition languages :: "language list" where
  "languages =
     [\<lparr>lang_code = ''en'', lang_name = ''English'', lang_class = ''lang-en''\<rparr>,
      \<lparr>lang_code = ''mk'',
       lang_name = [CHR 0xD0, CHR 0x9C, CHR 0xD0, CHR 0xB0, CHR 0xD0, CHR 0xBA, CHR 0xD0,
                    CHR 0xB5, CHR 0xD0, CHR 0xB4, CHR 0xD0, CHR 0xBE, CHR 0xD0, CHR 0xBD,
                    CHR 0xD1, CHR 0x81, CHR 0xD0, CHR 0xBA, CHR 0xD0, CHR 0xB8],
       lang_class = ''lang-mk''\<rparr>]"

text \<open>
  \<open>langGroups\<close> is a plain object: its own properties are the language codes, in the
  order of \<open>languages\<close>, each holding an array of references to form elements. A read
  \<open>langGroups[key]\<close> of a key that is not an own property goes to \<open>Object.prototype\<close>:
  for the names below it finds a function or an object, which is truthy and has no
  \<open>push\<close>; for every other key it gives \<open>undefined\<close>.
\<close>

type_synonym lang_groups = "(string \<times> nat list) list"

datatype lookup = OwnArray "nat list" | FromPrototype | Undefined

definition object_prototype_keys :: "string list" where
  "object_prototype_keys =
     [''constructor'', ''hasOwnProperty'', ''isPrototypeOf'', ''propertyIsEnumerable'',
      ''toLocaleString'', ''toString'', ''valueOf'', ''__proto__'',
      ''__defineGetter__'', ''__defineSetter__'', ''__lookupGetter__'',
      ''__lookupSetter__'']"

definition langGroups_get :: "lang_groups \<Rightarrow> string \<Rightarrow> lookup" where
  "langGroups_get langGroups key =
     (case map_of langGroups key of
        Some arr \<Rightarrow> OwnArray arr
      | None \<Rightarrow> if key \<in> set object_prototype_keys then FromPrototype else Undefined)"

definition langGroups_push :: "string \<Rightarrow> nat \<Rightarrow> lang_groups \<Rightarrow> lang_groups" where
  "langGroups_push key i langGroups =
     map (\<lambda>(k, arr). if k = key then (k, arr @ [i]) else (k, arr)) langGroups"

text \<open>
  \<open>langGroups[lang.code]\<close> for a configured language: the own array that the first
  \<open>forEach\<close> has created for it (lemma \<open>categorize_page\<close> below shows that the own
  properties stay the language codes, so the entry is always there).
\<close>

definition langGroups_of :: "lang_groups \<Rightarrow> string \<Rightarrow> nat list" where
  "langGroups_of langGroups code =
     (case map_of langGroups code of Some arr \<Rightarrow> arr | None \<Rightarrow> [])"

definition init_langGroups :: "language list \<Rightarrow> lang_groups" where
  "init_langGroups langs = map (\<lambda>lang. (lang_code lang, [])) langs"

text \<open>
  \<open>$('.lang-tab')\<close>: the marked elements of the whole document, in document order.
\<close>

definition select_lang_tab :: "state \<Rightarrow> node list" where
  "select_lang_tab st = find_class ''lang-tab'' (document st)"

text \<open>
  The inner \<open>for\<close> loop over the class names of the element with identity \<open>i\<close>, which
  is what \<open>push\<close> stores. An array is truthy
  even when empty; a value inherited from \<open>Object.prototype\<close> is truthy too, and calling
  its missing \<open>push\<close> raises a \<open>TypeError\<close>.
\<close>

fun categorize_classes :: "nat \<Rightarrow> string list \<Rightarrow> lang_groups \<Rightarrow> error + lang_groups" where
  "categorize_classes i [] langGroups = Inr langGroups"
| "categorize_classes i (className # classes) langGroups =
     (if prefix ''lang-'' className \<and> className \<noteq> ''lang-tab'' then
        (let langCode = js_replace ''lang-'' [] className in
         case langGroups_get langGroups langCode of
           OwnArray arr \<Rightarrow> categorize_classes i classes (langGroups_push langCode i langGroups)
         | FromPrototype \<Rightarrow> Inl TypeError
         | Undefined \<Rightarrow> categorize_classes i classes langGroups)
      else categorize_classes i classes langGroups)"

fun categorize :: "node list \<Rightarrow> lang_groups \<Rightarrow> error + lang_groups" where
  "categorize [] langGroups = Inr langGroups"
| "categorize (fieldset # langFieldsets) langGroups =
     (case categorize_classes (node_id fieldset) (js_split_space (node_class fieldset))
             langGroups of
        Inl e \<Rightarrow> Inl e
      | Inr langGroups' \<Rightarrow> categorize langFieldsets langGroups')"

definition tabHeader :: "language \<Rightarrow> header" where
  "tabHeader lang =
     \<lparr>h_class = ''lang-tab-header '' @ lang_class lang, h_lang = lang_code lang,
      h_text = lang_name lang, h_active = False\<rparr>"

fun create_headers :: "language list \<Rightarrow> lang_groups \<Rightarrow> header list \<Rightarrow> header list" where
  "create_headers [] langGroups tabHeaders = tabHeaders"
| "create_headers (lang # langs) langGroups tabHeaders =
     (if length (langGroups_of langGroups (lang_code lang)) > 0
      then create_headers langs langGroups (tabHeaders @ [tabHeader lang])
      else create_headers langs langGroups tabHeaders)"

text \<open>
  The inner \<open>forEach\<close> over the elements of one language. An element may by now be in
  the form, in an earlier panel, or in the panel that is being filled (when it came along
  with the content of an element it was nested in), so it is looked for in all three. The
  components are the panels so far, the content of the panel that is being filled, and the
  form.
\<close>

fun move_fieldsets ::
  "nat list \<Rightarrow> panel list \<times> node list \<times> node list \<Rightarrow> panel list \<times> node list \<times> node list" where
  "move_fieldsets [] (panels, kids, els) = (panels, kids, els)"
| "move_fieldsets (fieldset # fieldsets) (panels, kids, els) =
     (case take_in_panels fieldset panels of
        (panels', content1) \<Rightarrow>
          (case take_content fieldset kids of
             (kids', content2) \<Rightarrow>
               (case take_content fieldset els of
                  (els', content3) \<Rightarrow>
                    move_fieldsets fieldsets
                      (panels', kids' @ content1 @ content2 @ content3, els'))))"

fun create_contents ::
  "language list \<Rightarrow> lang_groups \<Rightarrow> panel list \<times> node list \<Rightarrow> panel list \<times> node list" where
  "create_contents [] langGroups (tabContents, els) = (tabContents, els)"
| "create_contents (lang # langs) langGroups (tabContents, els) =
     (if length (langGroups_of langGroups (lang_code lang)) > 0
      then (case move_fieldsets (langGroups_of langGroups (lang_code lang))
                   (tabContents, [], els) of
              (tabContents', kids, els') \<Rightarrow>
                create_contents langs langGroups
                  (tabContents' @ [\<lparr>p_lang = lang_code lang, p_active = False, p_kids = kids\<rparr>],
                   els'))
      else create_contents langs langGroups (tabContents, els))"

text \<open>
  \<open>initMultilingualTabs\<close>. With a stored selection that the selector of line 97 can
  carry (\<open>selector_safe\<close> below), the only exception it can raise comes from the
  categorising loop, which runs before the first change to the document, so the result is
  either the error (the document being as it was) or the new state. The tab container is
  inserted right before the first marked form element; its headers and panels are the new
  elements matched by the selectors \<open>.lang-tab-header\<close> and \<open>.lang-tab-content\<close>.
\<close>

definition initMultilingualTabs :: "state \<Rightarrow> error + state" where
  "initMultilingualTabs st =
     (let langFieldsets = select_lang_tab st in
      if length langFieldsets = 0 then Inr st
      else
        (case categorize langFieldsets (init_langGroups languages) of
           Inl e \<Rightarrow> Inl e
         | Inr langGroups \<Rightarrow>
             (let tabHeaders = create_headers languages langGroups [];
                  (tabContents, els) =
                     create_contents languages langGroups (tab_contents st, elements st);
                  st1 = st\<lparr>elements := els,
                           tab_headers := tab_headers st @ tabHeaders,
                           tab_contents := tabContents\<rparr>;
                  selectedTab = getSelectedTab st1;
                  selectedTab' =
                    (if length (filter (\<lambda>h. h_lang h = selectedTab) (tab_headers st1)) = 0
                     then ''en'' else selectedTab)
              in Inr (switchToTab selectedTab' st1))))"

subsection \<open>Handlers\<close>

text \<open>A click on the header at position \<open>i\<close> of \<open>$('.lang-tab-header')\<close>.\<close>

definition click_header :: "nat \<Rightarrow> state \<Rightarrow> state" where
  "click_header i st =
     (if i < length (tab_headers st)
      then (let selectedLang = h_lang (tab_headers st ! i)
            in saveSelectedTab selectedLang (switchToTab selectedLang st))
      else st)"

text \<open>
  The deferred scan. \<open>each\<close> calls the function on the panels in order until it returns
  \<open>false\<close>. The first component of the result lists the panels the function was called on.
\<close>

fun each_tabContent :: "panel list \<Rightarrow> state \<Rightarrow> panel list \<times> state" where
  "each_tabContent [] st = ([], st)"
| "each_tabContent (tabContent # rest) st =
     (if length (find_class ''errorlist'' (p_kids tabContent)) > 0
         \<or> length (find_class ''error'' (p_kids tabContent)) > 0
      then ([tabContent], switchToTab (p_lang tabContent) st)
      else (case each_tabContent rest st of
              (seen, st') \<Rightarrow> (tabContent # seen, st')))"

definition showTabWithErrors :: "state \<Rightarrow> state" where
  "showTabWithErrors st = snd (each_tabContent (tab_contents st) st)"

definition panels_scanned :: "state \<Rightarrow> panel list" where
  "panels_scanned st = fst (each_tabContent (tab_contents st) st)"

text \<open>
  The key handler: the result says whether \<open>preventDefault\<close> was called, and gives the
  new state.
\<close>

record key_event =
  ctrlKey :: bool
  metaKey :: bool
  which :: int

definition keydown :: "key_event \<Rightarrow> state \<Rightarrow> bool \<times> state" where
  "keydown e st =
     (if ctrlKey e \<or> metaKey e then
        (if which e = 49 then (True, switchToTab ''en'' st)
         else if which e = 50 then (True, switchToTab ''mk'' st)
         else (False, st))
      else (False, st))"

subsection \<open>Vocabulary of the properties\<close>

text \<open>
  A marked field group is an element matched by \<open>$('.lang-tab')\<close>. The language codes
  that the categorising loop reads off a list of class names are the class names that
  start with \<open>lang-\<close> and are not \<open>lang-tab\<close>, with the first \<open>lang-\<close> removed. A form
  element matches a language when the code is among those of its class attribute.
\<close>

definition marked :: "node \<Rightarrow> bool" where
  "marked n = has_class ''lang-tab'' (node_class n)"

definition lang_codes :: "string list \<Rightarrow> string list" where
  "lang_codes classes =
     map (js_replace ''lang-'' [])
       (filter (\<lambda>className. prefix ''lang-'' className \<and> className \<noteq> ''lang-tab'') classes)"

definition class_lang_codes :: "string \<Rightarrow> string list" where
  "class_lang_codes cls = lang_codes (js_split_space cls)"

definition matches :: "string \<Rightarrow> node \<Rightarrow> bool" where
  "matches code n = (code \<in> set (class_lang_codes (node_class n)))"

definition known_codes :: "string set" where
  "known_codes = lang_code ` set languages"

text \<open>
  The same in the words of the document: a form element has a language when its class
  attribute has the class \<open>lang-<code>\<close>. The loop reads the class attribute with
  \<open>split(' ')\<close>, so the two agree on a class attribute whose classes are separated by
  space characters, as the admin writes them (lemma \<open>matches_has_lang\<close>). A marked field
  group is of the known languages only when its class attribute is so written, it has a
  known language, and its only classes that start with \<open>lang-\<close> are \<open>lang-tab\<close> and those
  of known languages.
\<close>

definition has_lang :: "string \<Rightarrow> node \<Rightarrow> bool" where
  "has_lang code n = has_class (''lang-'' @ code) (node_class n)"

definition space_separated :: "string \<Rightarrow> bool" where
  "space_separated cls =
     list_all (\<lambda>c. c \<notin> {CHR 0x09, CHR 0x0A, CHR 0x0C, CHR 0x0D}) cls"

definition lang_classes :: "string \<Rightarrow> string list" where
  "lang_classes cls = filter (prefix ''lang-'') (class_tokens cls)"

definition known_languages_only :: "node \<Rightarrow> bool" where
  "known_languages_only n =
     (space_separated (node_class n)
      \<and> (\<exists>code \<in> known_codes. has_lang code n)
      \<and> set (lang_classes (node_class n))
           \<subseteq> insert ''lang-tab'' ((\<lambda>code. ''lang-'' @ code) ` known_codes))"

text \<open>
  A form element none of whose language classes names a property of
  \<open>Object.prototype\<close>.
\<close>

definition no_inherited_name :: "node \<Rightarrow> bool" where
  "no_inherited_name n = list_all (\<lambda>key. \<not> has_lang key n) object_prototype_keys"

text \<open>
  The stored selection is put between double quotes in a selector (line 97). The reading
  of that selector as a test for equality is right for a string without a double quote
  and without a backslash.
\<close>

definition selector_safe :: "string \<Rightarrow> bool" where
  "selector_safe s = list_all (\<lambda>c. c \<noteq> CHR 0x22 \<and> c \<noteq> CHR 0x5C) s"

text \<open>
  A document is well formed when the identities of its elements are pairwise distinct,
  and it has no tab markup of its own when none of its elements carries the class of a
  header or of a panel. The selectors \<open>.lang-tab-header\<close> and \<open>.lang-tab-content\<close> would
  match such elements too, so the statements about the built tabs are made for pages
  without them.
\<close>

definition well_formed :: "state \<Rightarrow> bool" where
  "well_formed st = distinct (map node_id (all_nodes (document st)))"

definition no_tab_markup :: "state \<Rightarrow> bool" where
  "no_tab_markup st =
     (find_class ''lang-tab-header'' (document st) = []
      \<and> find_class ''lang-tab-content'' (document st) = [])"

text \<open>
  What the properties say of an element is its identity, its class attribute and whether
  it is hidden. \<open>sigs\<close> collects this for every element of a forest, and \<open>hide_all\<close> is
  the change that hiding the elements with the given identities makes to it.
\<close>

definition sig :: "node \<Rightarrow> nat \<times> string \<times> bool" where
  "sig n = (node_id n, node_class n, node_hidden n)"

definition sigs :: "node list \<Rightarrow> (nat \<times> string \<times> bool) multiset" where
  "sigs forest = mset (map sig (all_nodes forest))"

definition hide_all :: "nat set \<Rightarrow> nat \<times> string \<times> bool \<Rightarrow> nat \<times> string \<times> bool" where
  "hide_all ids s = (fst s, fst (snd s), snd (snd s) \<or> fst s \<in> ids)"

text \<open>
  An element is inside another when it is among its descendants. \<open>ancestry\<close> lists, for
  a forest, the pairs of the identity of an element and the identity of one of its
  descendants.
\<close>

definition inside :: "node \<Rightarrow> node \<Rightarrow> bool" where
  "inside outer n = (n \<in> set (all_nodes (node_kids outer)))"

fun ancestry :: "node list \<Rightarrow> (nat \<times> nat) set" where
  "ancestry [] = {}"
| "ancestry (Node i cls hid kids # rest) =
     ({i} \<times> node_id ` set (all_nodes kids)) \<union> ancestry kids \<union> ancestry rest"

text \<open>
  The identities that \<open>langGroups\<close> holds for the given languages, and a panel that
  contains an error marker as the deferred scan tests it.
\<close>

definition grouped :: "lang_groups \<Rightarrow> language list \<Rightarrow> nat set" where
  "grouped langGroups langs =
     (\<Union>lang \<in> set langs. set (langGroups_of langGroups (lang_code lang)))"

definition has_error_marker :: "panel \<Rightarrow> bool" where
  "has_error_marker tabContent =
     (length (find_class ''errorlist'' (p_kids tabContent)) > 0
      \<or> length (find_class ''error'' (p_kids tabContent)) > 0)"

subsection \<open>Example pages\<close>

text \<open>A freshly loaded page: no tab has been built, nothing has been stored.\<close>

definition page :: "node list \<Rightarrow> state" where
  "page els = \<lparr>elements = els, tab_headers = [], tab_contents = [], localStorage = Map.empty\<rparr>"

definition fresh :: "state \<Rightarrow> bool" where
  "fresh st = (tab_headers st = [] \<and> tab_contents st = [])"

definition plain_form :: "node list" where
  "plain_form =
     [Node 1 ''module aligned'' False [Node 2 ''form-row field-title'' False []]]"

definition en_mk_form :: "node list" where
  "en_mk_form =
     [Node 1 ''module aligned lang-tab lang-en'' False
        [Node 2 ''form-row field-title'' False []],
      Node 3 ''module aligned'' False [Node 4 ''form-row field-slug'' False []],
      Node 5 ''module aligned lang-tab lang-en'' False
        [Node 6 ''form-row field-body'' False []],
      Node 7 ''module aligned lang-tab lang-mk'' False
        [Node 8 ''form-row errors field-title_mk'' False [Node 9 ''errorlist'' False []]]]"

definition en_only_form :: "node list" where
  "en_only_form =
     [Node 1 ''module aligned lang-tab lang-en'' False
        [Node 2 ''form-row field-title'' False []]]"

definition mk_only_form :: "node list" where
  "mk_only_form =
     [Node 1 ''module aligned lang-tab lang-mk'' False
        [Node 2 ''form-row field-title_mk'' False []]]"

definition en_fr_form :: "node list" where
  "en_fr_form =
     [Node 1 ''module aligned lang-tab lang-en'' False
        [Node 2 ''form-row field-title'' False []],
      Node 3 ''wrapper'' False
        [Node 4 ''module aligned lang-tab lang-fr'' False
           [Node 5 ''form-row field-title_fr'' False []]]]"

text \<open>
  The state that \<open>initMultilingualTabs\<close> builds from \<open>page en_mk_form\<close> (lemma
  \<open>init_en_mk_form\<close>): the two English groups and the Macedonian group are emptied and
  hidden, the unmarked group stays, and the English tab is active.
\<close>

definition en_mk_tabs :: state where
  "en_mk_tabs =
     \<lparr>elements =
        [Node 1 ''module aligned lang-tab lang-en'' True [],
         Node 3 ''module aligned'' False [Node 4 ''form-row field-slug'' False []],
         Node 5 ''module aligned lang-tab lang-en'' True [],
         Node 7 ''module aligned lang-tab lang-mk'' True []],
      tab_headers =
        [(tabHeader (languages ! 0))\<lparr>h_active := True\<rparr>, tabHeader (languages ! 1)],
      tab_contents =
        [\<lparr>p_lang = ''en'', p_active = True,
          p_kids = [Node 2 ''form-row field-title'' False [],
                    Node 6 ''form-row field-body'' False []]\<rparr>,
         \<lparr>p_lang = ''mk'', p_active = False,
          p_kids = [Node 8 ''form-row errors field-title_mk'' False
                      [Node 9 ''errorlist'' False []]]\<rparr>],
      localStorage = Map.empty\<rparr>"

text \<open>
  The state built from \<open>page en_only_form\<close> (lemma \<open>init_en_only_form\<close>), and the key
  event Ctrl+2.
\<close>

definition en_only_tabs :: state where
  "en_only_tabs =
     \<lparr>elements = [Node 1 ''module aligned lang-tab lang-en'' True []],
      tab_headers = [(tabHeader (languages ! 0))\<lparr>h_active := True\<rparr>],
      tab_contents =
        [\<lparr>p_lang = ''en'', p_active = True,
          p_kids = [Node 2 ''form-row field-title'' False []]\<rparr>],
      localStorage = Map.empty\<rparr>"

definition ctrl_2 :: key_event where
  "ctrl_2 = \<lparr>ctrlKey = True, metaKey = False, which = 50\<rparr>"

text \<open>
  A page with an English group and a group whose language class names a property of
  \<open>Object.prototype\<close>.
\<close>

definition en_constructor_form :: "node list" where
  "en_constructor_form =
     [Node 1 ''module aligned lang-tab lang-en'' False
        [Node 2 ''form-row field-title'' False []],
      Node 3 ''module aligned lang-tab lang-constructor'' False
        [Node 4 ''form-row field-title_x'' False []]]"

text \<open>
  Pages with nested groups: a Macedonian group inside an unmarked wrapper next to an
  English group, and a French group that contains an English group.
\<close>

definition en_wrapped_mk_form :: "node list" where
  "en_wrapped_mk_form =
     [Node 1 ''module aligned lang-tab lang-en'' False
        [Node 2 ''form-row field-title'' False []],
      Node 3 ''wrapper'' False
        [Node 4 ''module aligned lang-tab lang-mk'' False
           [Node 5 ''form-row field-title_mk'' False []]]]"

definition fr_around_en_form :: "node list" where
  "fr_around_en_form =
     [Node 1 ''lang-tab lang-fr'' False
        [Node 2 ''form-row field-title_fr'' False [],
         Node 3 ''lang-tab lang-en'' False [Node 4 ''form-row field-title'' False []]]]"

section \<open>Properties\<close>

subsection \<open>Unfolding the definitions on concrete pages\<close>

lemmas string_defs = js_split_space_def is_html_space_def class_tokens_def has_class_def

lemmas tab_defs = switchToTab_def Let_def addClass_active_headers_def
  removeClass_active_headers_def addClass_active_contents_def removeClass_active_contents_def

lemmas init_defs = initMultilingualTabs_def select_lang_tab_def document_def
  init_langGroups_def languages_def langGroups_get_def langGroups_push_def langGroups_of_def
  tabHeader_def object_prototype_keys_def getSelectedTab_def

lemmas page_defs = page_def fresh_def plain_form_def en_mk_form_def en_only_form_def
  mk_only_form_def en_fr_form_def en_mk_tabs_def en_constructor_form_def
  en_wrapped_mk_form_def fr_around_en_form_def

lemma init_en_mk_form: "initMultilingualTabs (page en_mk_form) = Inr en_mk_tabs"
  by (simp add: page_defs init_defs string_defs tab_defs)

subsection \<open>Switching tabs\<close>

lemma switchToTab_headers:
  "tab_headers (switchToTab langCode st) =
     map (\<lambda>h. h\<lparr>h_active := (h_lang h = langCode)\<rparr>) (tab_headers st)"
  by (simp add: tab_defs)

lemma switchToTab_contents:
  "tab_contents (switchToTab langCode st) =
     map (\<lambda>p. p\<lparr>p_active := (p_lang p = langCode)\<rparr>) (tab_contents st)"
  by (simp add: tab_defs)

lemma switchToTab_elements: "elements (switchToTab langCode st) = elements st"
  by (simp add: tab_defs)

lemma switchToTab_localStorage: "localStorage (switchToTab langCode st) = localStorage st"
  by (simp add: tab_defs)

lemmas switchToTab_simps = switchToTab_headers switchToTab_contents switchToTab_elements
  switchToTab_localStorage

lemma state_eqI:
  fixes s t :: state
  assumes "elements s = elements t" and "tab_headers s = tab_headers t"
    and "tab_contents s = tab_contents t" and "localStorage s = localStorage t"
  shows "s = t"
  using assms by simp

lemma filter_key_le_one:
  "distinct (map f xs) \<Longrightarrow> length (filter (\<lambda>x. f x = c) xs) \<le> Suc 0"
proof (induction xs)
  case Nil
  then show ?case by simp
next
  case (Cons x xs)
  show ?case
  proof (cases "f x = c")
    case True
    with Cons.prems have "c \<notin> f ` set xs" by simp
    then have "filter (\<lambda>x. f x = c) xs = []"
      by (auto simp: filter_empty_conv)
    with True show ?thesis by simp
  next
    case False
    with Cons show ?thesis by simp
  qed
qed

lemma active_headers_after_switch:
  "filter h_active (map (\<lambda>h. h\<lparr>h_active := (h_lang h = c)\<rparr>) hs) =
     map (\<lambda>h. h\<lparr>h_active := True\<rparr>) (filter (\<lambda>h. h_lang h = c) hs)"
  by (induction hs) auto

lemma active_contents_after_switch:
  "filter p_active (map (\<lambda>p. p\<lparr>p_active := (p_lang p = c)\<rparr>) ps) =
     map (\<lambda>p. p\<lparr>p_active := True\<rparr>) (filter (\<lambda>p. p_lang p = c) ps)"
  by (induction ps) auto

lemma filter_key_absent: "c \<notin> f ` set xs \<Longrightarrow> filter (\<lambda>x. f x = c) xs = []"
  by (auto simp: filter_empty_conv)

text \<open>
  Claim C4. \<open>switchToTab langCode\<close> returns a state for every argument (it has no error
  result). In that state a header is active exactly when its language is \<open>langCode\<close>, and
  so is a panel; nothing else about the headers and panels changes. When no header (no
  panel) has the language, none is active afterwards. Where the headers (the panels) have
  distinct languages, as the built ones have, at most one is active afterwards.
\<close>

theorem switchToTab_only_match:
  "tab_headers (switchToTab langCode st) =
     map (\<lambda>h. h\<lparr>h_active := (h_lang h = langCode)\<rparr>) (tab_headers st)
   \<and> tab_contents (switchToTab langCode st) =
     map (\<lambda>p. p\<lparr>p_active := (p_lang p = langCode)\<rparr>) (tab_contents st)
   \<and> (langCode \<notin> h_lang ` set (tab_headers st) \<longrightarrow>
        filter h_active (tab_headers (switchToTab langCode st)) = [])
   \<and> (langCode \<notin> p_lang ` set (tab_contents st) \<longrightarrow>
        filter p_active (tab_contents (switchToTab langCode st)) = [])
   \<and> (distinct (map h_lang (tab_headers st)) \<longrightarrow>
        length (filter h_active (tab_headers (switchToTab langCode st))) \<le> 1)
   \<and> (distinct (map p_lang (tab_contents st)) \<longrightarrow>
        length (filter p_active (tab_contents (switchToTab langCode st))) \<le> 1)"
  by (simp add: switchToTab_simps active_headers_after_switch active_contents_after_switch
        filter_key_absent filter_key_le_one)

theorem switchToTab_only_match_witness:
  "map h_active (tab_headers (switchToTab ''mk'' en_mk_tabs)) = [False, True]
   \<and> map p_active (tab_contents (switchToTab ''mk'' en_mk_tabs)) = [False, True]
   \<and> filter h_active (tab_headers (switchToTab ''fr'' en_mk_tabs)) = []
   \<and> filter p_active (tab_contents (switchToTab ''fr'' en_mk_tabs)) = []
   \<and> length (filter h_active (tab_headers (switchToTab ''mk'' en_mk_tabs))) \<le> 1
   \<and> length (filter p_active (tab_contents (switchToTab ''mk'' en_mk_tabs))) \<le> 1"
  using switchToTab_only_match [of "''mk''" en_mk_tabs]
    switchToTab_only_match [of "''fr''" en_mk_tabs]
  by (simp add: en_mk_tabs_def languages_def tabHeader_def)

text \<open>
  Claim C8. Calling \<open>switchToTab\<close> twice with the same language code gives the same state
  as calling it once.
\<close>

theorem switchToTab_idempotent:
  "switchToTab langCode (switchToTab langCode st) = switchToTab langCode st"
  by (rule state_eqI) (simp_all add: switchToTab_simps)

subsection \<open>Persisted selection\<close>

text \<open>
  Claim C6. A language code is a non-empty string; the codes the script stores are those
  of the built headers, \<open>en\<close> and \<open>mk\<close>. For every non-empty string \<open>s\<close>, and so for every
  known language code, \<open>getSelectedTab\<close> after \<open>saveSelectedTab s\<close> returns \<open>s\<close>; and
  \<open>getSelectedTab\<close> returns \<open>en\<close> when the key is absent.
\<close>

theorem getSelectedTab_roundtrip:
  "(s \<noteq> [] \<longrightarrow> getSelectedTab (saveSelectedTab s st) = s)
   \<and> (s \<in> known_codes \<longrightarrow> getSelectedTab (saveSelectedTab s st) = s)
   \<and> (localStorage st ''selectedLangTab'' = None \<longrightarrow> getSelectedTab st = ''en'')"
  by (auto simp: getSelectedTab_def saveSelectedTab_def known_codes_def languages_def)

theorem getSelectedTab_roundtrip_witness:
  "getSelectedTab (saveSelectedTab ''mk'' (page en_mk_form)) = ''mk''
   \<and> getSelectedTab (saveSelectedTab ''en'' (page en_mk_form)) = ''en''
   \<and> getSelectedTab (page en_mk_form) = ''en''"
  using getSelectedTab_roundtrip [of "''mk''" "page en_mk_form"]
    getSelectedTab_roundtrip [of "''en''" "page en_mk_form"]
  by (simp add: page_def known_codes_def languages_def)

subsection \<open>Pages without marked field groups\<close>

lemma find_class_append:
  "find_class name (xs @ ys) = find_class name xs @ find_class name ys"
  by (induction name xs rule: find_class.induct) simp_all

text \<open>
  Claim C7. When no element of the document carries the class \<open>lang-tab\<close>, at whatever
  depth and whether it is in the form or in a panel, \<open>initMultilingualTabs\<close> returns the
  state it was given: nothing is inserted, nothing is hidden, nothing is stored. The test
  is the first thing the function does.
\<close>

theorem initMultilingualTabs_no_marked:
  assumes "find_class ''lang-tab'' (document st) = []"
  shows "initMultilingualTabs st = Inr st"
  using assms by (simp add: initMultilingualTabs_def select_lang_tab_def)

theorem initMultilingualTabs_no_marked_witness:
  "initMultilingualTabs (page plain_form) = Inr (page plain_form)"
  by (rule initMultilingualTabs_no_marked)
     (simp add: document_def page_def plain_form_def string_defs)

subsection \<open>The deferred error scan\<close>

lemma each_tabContent_localStorage:
  "localStorage (snd (each_tabContent ps st)) = localStorage st"
  by (induction ps) (auto simp: switchToTab_localStorage split: prod.splits)

text \<open>
  Claim C10. \<open>showTabWithErrors\<close> leaves \<open>localStorage\<close> as it was. So the active tab and
  the stored selection can differ after the scan: on \<open>en_mk_tabs\<close> the scan activates the
  Macedonian tab while \<open>getSelectedTab\<close> still answers \<open>en\<close>.
\<close>

theorem showTabWithErrors_keeps_localStorage:
  "localStorage (showTabWithErrors st) = localStorage st
   \<and> (\<exists>st0. map h_lang (filter h_active (tab_headers (showTabWithErrors st0))) = [''mk'']
           \<and> getSelectedTab (showTabWithErrors st0) = ''en'')"
proof
  show "localStorage (showTabWithErrors st) = localStorage st"
    by (simp add: showTabWithErrors_def each_tabContent_localStorage)
  have "map h_lang (filter h_active (tab_headers (showTabWithErrors en_mk_tabs))) = [''mk'']
        \<and> getSelectedTab (showTabWithErrors en_mk_tabs) = ''en''"
    by (simp add: showTabWithErrors_def en_mk_tabs_def string_defs tab_defs languages_def
          tabHeader_def getSelectedTab_def)
  then show "\<exists>st0. map h_lang (filter h_active (tab_headers (showTabWithErrors st0))) = [''mk'']
           \<and> getSelectedTab (showTabWithErrors st0) = ''en''"
    by (rule exI)
qed

subsection \<open>Categorising\<close>

lemma own_key_iff: "(k \<in> fst ` set lg) = (\<exists>arr. map_of lg k = Some arr)"
proof -
  have "(k \<notin> fst ` set lg) = (map_of lg k = None)"
    by (simp add: map_of_eq_None_iff)
  then show ?thesis by auto
qed

lemma map_of_langGroups_push:
  "map_of (langGroups_push key i lg) k =
     (if k = key then map_option (\<lambda>arr. arr @ [i]) (map_of lg k) else map_of lg k)"
  by (induction lg) (auto simp: langGroups_push_def)

lemma keys_langGroups_push: "map fst (langGroups_push key i lg) = map fst lg"
  by (induction lg) (auto simp: langGroups_push_def)

lemma langGroups_of_push:
  "langGroups_of (langGroups_push key i lg) k =
     (if k = key \<and> key \<in> fst ` set lg then langGroups_of lg k @ [i] else langGroups_of lg k)"
  by (cases "map_of lg key")
     (auto simp: langGroups_of_def map_of_langGroups_push own_key_iff)

lemma langGroups_get_cases:
  "langGroups_get lg k =
     (if k \<in> fst ` set lg then OwnArray (langGroups_of lg k)
      else if k \<in> set object_prototype_keys then FromPrototype else Undefined)"
  by (cases "map_of lg k") (auto simp: langGroups_get_def langGroups_of_def own_key_iff)

lemma lang_codes_Nil: "lang_codes [] = []"
  by (simp add: lang_codes_def)

lemma lang_codes_Cons:
  "lang_codes (className # classes) =
     (if prefix ''lang-'' className \<and> className \<noteq> ''lang-tab''
      then js_replace ''lang-'' [] className # lang_codes classes
      else lang_codes classes)"
  by (simp add: lang_codes_def)

lemma keys_set: "fst ` set lg = set (map fst lg)"
  by simp

lemma categorize_classes_Inr:
  "categorize_classes i classes lg = Inr lg' \<Longrightarrow>
     map fst lg' = map fst lg \<and>
     (\<forall>k. set (langGroups_of lg' k) =
            set (langGroups_of lg k) \<union>
              (if k \<in> fst ` set lg \<and> k \<in> set (lang_codes classes) then {i} else {}))"
proof (induction classes arbitrary: lg)
  case Nil
  then show ?case by (simp add: lang_codes_Nil)
next
  case (Cons className classes)
  show ?case
  proof (cases "prefix ''lang-'' className \<and> className \<noteq> ''lang-tab''")
    case False
    then have codes: "lang_codes (className # classes) = lang_codes classes"
      by (simp add: lang_codes_Cons)
    from False Cons.prems have "categorize_classes i classes lg = Inr lg'" by auto
    from Cons.IH [OF this] show ?thesis
      unfolding codes .
  next
    case True
    let ?c = "js_replace ''lang-'' [] className"
    have codes: "lang_codes (className # classes) = ?c # lang_codes classes"
      using True by (simp add: lang_codes_Cons)
    show ?thesis
    proof (cases "?c \<in> fst ` set lg")
      case own: True
      with Cons.prems True
      have "categorize_classes i classes (langGroups_push ?c i lg) = Inr lg'"
        by (simp add: langGroups_get_cases)
      from Cons.IH [OF this]
      have keys: "map fst lg' = map fst lg"
        and sets: "\<And>k. set (langGroups_of lg' k) =
            set (langGroups_of (langGroups_push ?c i lg) k) \<union>
              (if k \<in> fst ` set lg \<and> k \<in> set (lang_codes classes) then {i} else {})"
        by (simp_all add: keys_langGroups_push keys_set del: set_map)
      show ?thesis
        unfolding codes using own keys sets
        by (auto simp: langGroups_of_push)
    next
      case other: False
      with Cons.prems True
      have "categorize_classes i classes lg = Inr lg'"
        by (simp add: langGroups_get_cases Let_def split: if_splits)
      from Cons.IH [OF this]
      have keys: "map fst lg' = map fst lg"
        and sets: "\<And>k. set (langGroups_of lg' k) =
            set (langGroups_of lg k) \<union>
              (if k \<in> fst ` set lg \<and> k \<in> set (lang_codes classes) then {i} else {})"
        by simp_all
      define K where "K = fst ` set lg"
      have "set (langGroups_of lg' k) =
            set (langGroups_of lg k) \<union>
              (if k \<in> K \<and> k \<in> set (?c # lang_codes classes) then {i} else {})" for k
        using other sets [of k] unfolding K_def [symmetric]
        by (cases "k = ?c") simp_all
      with keys show ?thesis
        unfolding codes K_def by simp
    qed
  qed
qed

lemma categorize_classes_Inl:
  "categorize_classes i classes lg = Inl e \<Longrightarrow>
     \<exists>c \<in> set (lang_codes classes). c \<notin> fst ` set lg \<and> c \<in> set object_prototype_keys"
proof (induction classes arbitrary: lg)
  case Nil
  then show ?case by simp
next
  case (Cons className classes)
  show ?case
  proof (cases "prefix ''lang-'' className \<and> className \<noteq> ''lang-tab''")
    case False
    then have codes: "lang_codes (className # classes) = lang_codes classes"
      by (simp add: lang_codes_Cons)
    from False Cons.prems have "categorize_classes i classes lg = Inl e" by auto
    from Cons.IH [OF this] show ?thesis
      unfolding codes .
  next
    case True
    let ?c = "js_replace ''lang-'' [] className"
    have codes: "lang_codes (className # classes) = ?c # lang_codes classes"
      using True by (simp add: lang_codes_Cons)
    consider (own) "?c \<in> fst ` set lg"
      | (proto) "?c \<notin> fst ` set lg" "?c \<in> set object_prototype_keys"
      | (undef) "?c \<notin> fst ` set lg" "?c \<notin> set object_prototype_keys"
      by blast
    then show ?thesis
    proof cases
      case own
      with Cons.prems True
      have "categorize_classes i classes (langGroups_push ?c i lg) = Inl e"
        by (simp add: langGroups_get_cases)
      from Cons.IH [OF this] show ?thesis
        unfolding codes by (auto simp: keys_langGroups_push keys_set simp del: set_map)
    next
      case proto
      then show ?thesis unfolding codes by simp
    next
      case undef
      with Cons.prems True
      have "categorize_classes i classes lg = Inl e"
        by (simp add: langGroups_get_cases)
      from Cons.IH [OF this] show ?thesis
        unfolding codes by auto
    qed
  qed
qed

lemma categorize_Inr:
  "categorize fieldsets lg = Inr lg' \<Longrightarrow>
     map fst lg' = map fst lg \<and>
     (\<forall>k. set (langGroups_of lg' k) =
            set (langGroups_of lg k) \<union>
              {node_id n |n. n \<in> set fieldsets \<and> k \<in> fst ` set lg \<and> matches k n})"
proof (induction fieldsets arbitrary: lg)
  case Nil
  then show ?case by simp
next
  case (Cons fieldset fieldsets)
  from Cons.prems obtain lg1 where
    one: "categorize_classes (node_id fieldset) (js_split_space (node_class fieldset)) lg
            = Inr lg1"
    and rest: "categorize fieldsets lg1 = Inr lg'"
    by (auto split: sum.splits)
  from categorize_classes_Inr [OF one]
  have keys1: "map fst lg1 = map fst lg"
    and sets1: "\<And>k. set (langGroups_of lg1 k) =
            set (langGroups_of lg k) \<union>
              (if k \<in> fst ` set lg \<and> matches k fieldset then {node_id fieldset} else {})"
    by (simp_all add: matches_def class_lang_codes_def)
  from keys1 have img: "fst ` set lg1 = fst ` set lg"
    by (simp add: keys_set del: set_map)
  from Cons.IH [OF rest]
  have keys: "map fst lg' = map fst lg1"
    and sets: "\<And>k. set (langGroups_of lg' k) =
            set (langGroups_of lg1 k) \<union>
              {node_id n |n. n \<in> set fieldsets \<and> k \<in> fst ` set lg1 \<and> matches k n}"
    by simp_all
  show ?case
    using keys keys1 by (auto simp: sets sets1 img)
qed

lemma categorize_Inl:
  "categorize fieldsets lg = Inl e \<Longrightarrow>
     \<exists>n \<in> set fieldsets. \<exists>c \<in> set (class_lang_codes (node_class n)).
        c \<notin> fst ` set lg \<and> c \<in> set object_prototype_keys"
proof (induction fieldsets arbitrary: lg)
  case Nil
  then show ?case by simp
next
  case (Cons fieldset fieldsets)
  show ?case
  proof (cases "categorize_classes (node_id fieldset) (js_split_space (node_class fieldset)) lg")
    case (Inl e')
    from categorize_classes_Inl [OF this] show ?thesis
      by (auto simp: class_lang_codes_def)
  next
    case (Inr lg1)
    with Cons.prems have rest: "categorize fieldsets lg1 = Inl e" by simp
    from categorize_classes_Inr [OF Inr] have "fst ` set lg1 = fst ` set lg"
      by (simp add: keys_set del: set_map)
    with Cons.IH [OF rest] show ?thesis by auto
  qed
qed

subsection \<open>Building headers and panels\<close>

lemma create_headers_eq:
  "create_headers langs lg acc =
     acc @ map tabHeader (filter (\<lambda>lang. langGroups_of lg (lang_code lang) \<noteq> []) langs)"
  by (induction langs arbitrary: acc) auto

subsection \<open>Moving content keeps every element\<close>

lemma all_nodes_append: "all_nodes (xs @ ys) = all_nodes xs @ all_nodes ys"
  by (induction xs rule: all_nodes.induct) simp_all

lemma find_class_filter:
  "find_class name forest = filter (\<lambda>n. has_class name (node_class n)) (all_nodes forest)"
  by (induction name forest rule: find_class.induct) simp_all

lemma sigs_Nil: "sigs [] = {#}"
  by (simp add: sigs_def)

lemma sigs_Cons: "sigs (Node i cls hid kids # rest) = {#(i, cls, hid)#} + sigs kids + sigs rest"
  by (simp add: sigs_def sig_def)

lemma sigs_append: "sigs (xs @ ys) = sigs xs + sigs ys"
  by (simp add: sigs_def all_nodes_append)

lemma sigs_moved:
  "sigs (without_class name kids) + sigs (map (detached name) (find_class name kids))
     = sigs kids"
proof (induction name kids rule: find_class.induct)
  case (1 name)
  then show ?case by (simp add: sigs_Nil)
next
  case (2 name i cls hid kids rest)
  show ?case
  proof (cases "has_class name cls")
    case True
    have "sigs (without_class name (Node i cls hid kids # rest))
            + sigs (map (detached name) (find_class name (Node i cls hid kids # rest)))
          = sigs (without_class name rest)
            + ({#(i, cls, hid)#} + sigs (without_class name kids)
               + (sigs (map (detached name) (find_class name kids))
                  + sigs (map (detached name) (find_class name rest))))"
      using True by (simp add: sigs_Cons sigs_append)
    also have "\<dots> = {#(i, cls, hid)#}
            + (sigs (without_class name kids) + sigs (map (detached name) (find_class name kids)))
            + (sigs (without_class name rest) + sigs (map (detached name) (find_class name rest)))"
      by (simp add: ac_simps)
    also have "\<dots> = sigs (Node i cls hid kids # rest)"
      unfolding "2.IH" by (simp add: sigs_Cons)
    finally show ?thesis .
  next
    case False
    have "sigs (without_class name (Node i cls hid kids # rest))
            + sigs (map (detached name) (find_class name (Node i cls hid kids # rest)))
          = {#(i, cls, hid)#}
            + (sigs (without_class name kids) + sigs (map (detached name) (find_class name kids)))
            + (sigs (without_class name rest) + sigs (map (detached name) (find_class name rest)))"
      using False by (simp add: sigs_Cons sigs_append ac_simps)
    also have "\<dots> = sigs (Node i cls hid kids # rest)"
      unfolding "2.IH" by (simp add: sigs_Cons)
    finally show ?thesis .
  qed
qed

lemma hide_all_absent:
  assumes "ids \<inter> node_id ` set (all_nodes forest) = {}"
  shows "image_mset (hide_all ids) (sigs forest) = sigs forest"
proof -
  have "\<And>n. n \<in># mset (all_nodes forest) \<Longrightarrow> (hide_all ids \<circ> sig) n = sig n"
    using assms by (auto simp: hide_all_def sig_def)
  then show ?thesis
    unfolding sigs_def mset_map multiset.map_comp by (rule image_mset_cong)
qed

lemma take_content_absent:
  "fieldset \<notin> node_id ` set (all_nodes forest) \<Longrightarrow>
     take_content fieldset forest = (forest, [])"
proof (induction fieldset forest rule: take_content.induct)
  case (1 fieldset)
  then show ?case by simp
next
  case (2 fieldset i cls hid kids rest)
  from "2.prems" have ne: "i \<noteq> fieldset"
    and k: "fieldset \<notin> node_id ` set (all_nodes kids)"
    and r: "fieldset \<notin> node_id ` set (all_nodes rest)"
    by auto
  from "2.IH"(1) [OF ne k] have tk: "take_content fieldset kids = (kids, [])" .
  from "2.IH"(2) [OF ne tk [symmetric] r] have tr: "take_content fieldset rest = (rest, [])" .
  show ?case using ne tk tr by simp
qed

lemma take_content_sigs:
  assumes "distinct (map node_id (all_nodes forest))"
  shows "sigs (fst (take_content fieldset forest)) + sigs (snd (take_content fieldset forest))
           = image_mset (hide_all {fieldset}) (sigs forest)"
  using assms
proof (induction fieldset forest rule: take_content.induct)
  case (1 fieldset)
  then show ?case by (simp add: sigs_Nil)
next
  case (2 fieldset i cls hid kids rest)
  from "2.prems" have dk: "distinct (map node_id (all_nodes kids))"
    and dr: "distinct (map node_id (all_nodes rest))"
    and ik: "i \<notin> node_id ` set (all_nodes kids)"
    and ir: "i \<notin> node_id ` set (all_nodes rest)"
    by auto
  show ?case
  proof (cases "i = fieldset")
    case True
    let ?found = "find_class ''module'' kids"
    have moved: "sigs (if length ?found > 0 then without_class ''module'' kids else [])
          + sigs (if length ?found > 0 then map (detached ''module'') ?found else kids)
          = sigs kids"
      by (simp add: sigs_moved sigs_Nil)
    have "sigs (fst (take_content fieldset (Node i cls hid kids # rest)))
            + sigs (snd (take_content fieldset (Node i cls hid kids # rest)))
          = {#(i, cls, True)#}
            + (sigs (if length ?found > 0 then without_class ''module'' kids else [])
               + sigs (if length ?found > 0 then map (detached ''module'') ?found else kids))
            + sigs rest"
      using True by (simp add: Let_def sigs_Cons ac_simps)
    also have "\<dots> = {#(i, cls, True)#} + sigs kids + sigs rest"
      unfolding moved ..
    also have "\<dots> = image_mset (hide_all {fieldset}) (sigs (Node i cls hid kids # rest))"
      using True ik ir
      by (simp add: sigs_Cons hide_all_absent) (simp add: hide_all_def)
    finally show ?thesis .
  next
    case False
    from "2.IH"(1) [OF False dk] "2.IH"(2) [OF False _ dr]
    have k: "sigs (fst (take_content fieldset kids)) + sigs (snd (take_content fieldset kids))
           = image_mset (hide_all {fieldset}) (sigs kids)"
      and r: "sigs (fst (take_content fieldset rest)) + sigs (snd (take_content fieldset rest))
           = image_mset (hide_all {fieldset}) (sigs rest)"
      by (simp_all add: prod_eq_iff)
    have "sigs (fst (take_content fieldset (Node i cls hid kids # rest)))
            + sigs (snd (take_content fieldset (Node i cls hid kids # rest)))
          = {#(i, cls, hid)#}
            + (sigs (fst (take_content fieldset kids)) + sigs (snd (take_content fieldset kids)))
            + (sigs (fst (take_content fieldset rest)) + sigs (snd (take_content fieldset rest)))"
      using False by (simp add: sigs_Cons sigs_append split: prod.splits)
    also have "\<dots> = image_mset (hide_all {fieldset}) (sigs (Node i cls hid kids # rest))"
      unfolding k r using False by (simp add: sigs_Cons) (simp add: hide_all_def)
    finally show ?thesis .
  qed
qed

lemma ids_of_sigs: "mset (map node_id (all_nodes forest)) = image_mset fst (sigs forest)"
  by (simp add: sigs_def multiset.map_comp comp_def sig_def)

lemma fst_hide_all: "image_mset fst (image_mset (hide_all ids) M) = image_mset fst M"
  by (simp add: multiset.map_comp comp_def hide_all_def)

lemma hide_all_hide_all:
  "image_mset (hide_all A) (image_mset (hide_all B) M) = image_mset (hide_all (B \<union> A)) M"
proof -
  have "hide_all A \<circ> hide_all B = hide_all (B \<union> A)"
    by (auto simp: fun_eq_iff hide_all_def)
  then show ?thesis
    by (simp add: multiset.map_comp)
qed

lemma hide_all_empty: "image_mset (hide_all {}) M = M"
proof -
  have "hide_all {} = id"
    by (auto simp: fun_eq_iff hide_all_def)
  then show ?thesis by simp
qed

lemma distinct_of_sigs:
  assumes "sigs forest' = image_mset (hide_all ids) (sigs forest)"
    and "distinct (map node_id (all_nodes forest))"
  shows "distinct (map node_id (all_nodes forest'))"
proof -
  have "mset (map node_id (all_nodes forest')) = mset (map node_id (all_nodes forest))"
    unfolding ids_of_sigs assms(1) fst_hide_all ..
  from mset_eq_imp_distinct_iff [OF this] assms(2) show ?thesis by simp
qed

lemma take_in_panels_langs:
  "map p_lang (fst (take_in_panels fieldset ps)) = map p_lang ps
   \<and> map p_active (fst (take_in_panels fieldset ps)) = map p_active ps"
  by (induction ps) (auto split: prod.splits)

lemma take_in_panels_sigs:
  assumes "distinct (map node_id (all_nodes (concat (map p_kids ps))))"
  shows "sigs (concat (map p_kids (fst (take_in_panels fieldset ps))))
           + sigs (snd (take_in_panels fieldset ps))
         = image_mset (hide_all {fieldset}) (sigs (concat (map p_kids ps)))"
  using assms
proof (induction ps)
  case Nil
  then show ?case by (simp add: sigs_Nil)
next
  case (Cons p ps)
  from Cons.prems have dp: "distinct (map node_id (all_nodes (p_kids p)))"
    and dps: "distinct (map node_id (all_nodes (concat (map p_kids ps))))"
    by (simp_all add: all_nodes_append)
  note k = take_content_sigs [OF dp, of fieldset]
  note r = Cons.IH [OF dps]
  have "sigs (concat (map p_kids (fst (take_in_panels fieldset (p # ps)))))
           + sigs (snd (take_in_panels fieldset (p # ps)))
        = (sigs (fst (take_content fieldset (p_kids p)))
             + sigs (snd (take_content fieldset (p_kids p))))
          + (sigs (concat (map p_kids (fst (take_in_panels fieldset ps))))
             + sigs (snd (take_in_panels fieldset ps)))"
    by (simp add: sigs_append split: prod.splits)
  also have "\<dots> = image_mset (hide_all {fieldset}) (sigs (concat (map p_kids (p # ps))))"
    unfolding k r by (simp add: sigs_append)
  finally show ?case .
qed

text \<open>
  The inner loop over the elements of one language keeps every element, with its identity
  and class attribute, and hides those it was run on.
\<close>

lemma move_fieldsets_sigs:
  assumes "distinct (map node_id (all_nodes (concat (map p_kids panels) @ kids @ els)))"
    and "move_fieldsets fieldsets (panels, kids, els) = (panels', kids', els')"
  shows "sigs (concat (map p_kids panels') @ kids' @ els')
           = image_mset (hide_all (set fieldsets)) (sigs (concat (map p_kids panels) @ kids @ els))
         \<and> map p_lang panels' = map p_lang panels
         \<and> map p_active panels' = map p_active panels"
  using assms
proof (induction fieldsets arbitrary: panels kids els)
  case Nil
  then show ?case by (simp add: hide_all_empty)
next
  case (Cons fieldset fieldsets)
  let ?P = "take_in_panels fieldset panels"
  let ?K = "take_content fieldset kids"
  let ?E = "take_content fieldset els"
  let ?kids1 = "fst ?K @ snd ?P @ snd ?K @ snd ?E"
  have step: "move_fieldsets (fieldset # fieldsets) (panels, kids, els)
          = move_fieldsets fieldsets (fst ?P, ?kids1, fst ?E)"
    by (simp split: prod.splits)
  note d = Cons.prems(1)
  from d have dp: "distinct (map node_id (all_nodes (concat (map p_kids panels))))"
    and dk: "distinct (map node_id (all_nodes kids))"
    and de: "distinct (map node_id (all_nodes els))"
    by (simp_all add: all_nodes_append)
  have "sigs (concat (map p_kids (fst ?P)) @ ?kids1 @ fst ?E)
        = (sigs (concat (map p_kids (fst ?P))) + sigs (snd ?P))
          + (sigs (fst ?K) + sigs (snd ?K)) + (sigs (fst ?E) + sigs (snd ?E))"
    by (simp add: sigs_append)
  also have "\<dots> = image_mset (hide_all {fieldset})
                     (sigs (concat (map p_kids panels) @ kids @ els))"
    unfolding take_in_panels_sigs [OF dp] take_content_sigs [OF dk] take_content_sigs [OF de]
    by (simp add: sigs_append)
  finally have one: "sigs (concat (map p_kids (fst ?P)) @ ?kids1 @ fst ?E)
        = image_mset (hide_all {fieldset}) (sigs (concat (map p_kids panels) @ kids @ els))" .
  from distinct_of_sigs [OF one d]
  have d1: "distinct (map node_id (all_nodes (concat (map p_kids (fst ?P)) @ ?kids1 @ fst ?E)))" .
  from Cons.prems(2)
  have mv1: "move_fieldsets fieldsets (fst ?P, ?kids1, fst ?E) = (panels', kids', els')"
    unfolding step .
  from Cons.IH [OF d1 mv1] show ?case
    unfolding one by (simp add: hide_all_hide_all take_in_panels_langs)
qed

lemma create_contents_sigs:
  assumes "distinct (map node_id (all_nodes (concat (map p_kids acc) @ els)))"
    and "create_contents langs lg (acc, els) = (panels, els')"
  shows "sigs (concat (map p_kids panels) @ els')
           = image_mset (hide_all (grouped lg langs)) (sigs (concat (map p_kids acc) @ els))
         \<and> map p_lang panels =
             map p_lang acc @
               map lang_code (filter (\<lambda>lang. langGroups_of lg (lang_code lang) \<noteq> []) langs)"
  using assms
proof (induction langs arbitrary: acc els)
  case Nil
  then show ?case by (simp add: grouped_def hide_all_empty)
next
  case (Cons lang langs)
  let ?g = "langGroups_of lg (lang_code lang)"
  have grouped: "grouped lg (lang # langs) = set ?g \<union> grouped lg langs"
    by (simp add: grouped_def)
  note d = Cons.prems(1) and cc = Cons.prems(2)
  show ?case
  proof (cases "?g = []")
    case True
    with cc have "create_contents langs lg (acc, els) = (panels, els')" by simp
    from Cons.IH [OF d this] True show ?thesis by (simp add: grouped)
  next
    case False
    obtain acc1 kids els1 where mv: "move_fieldsets ?g (acc, [], els) = (acc1, kids, els1)"
      by (cases "move_fieldsets ?g (acc, [], els)")
    let ?acc2 = "acc1 @ [\<lparr>p_lang = lang_code lang, p_active = False, p_kids = kids\<rparr>]"
    from False cc mv have cc1: "create_contents langs lg (?acc2, els1) = (panels, els')"
      by simp
    from d have d0: "distinct (map node_id (all_nodes (concat (map p_kids acc) @ [] @ els)))"
      by simp
    from move_fieldsets_sigs [OF d0 mv]
    have one: "sigs (concat (map p_kids ?acc2) @ els1)
                 = image_mset (hide_all (set ?g)) (sigs (concat (map p_kids acc) @ els))"
      and langs: "map p_lang acc1 = map p_lang acc"
      by simp_all
    from distinct_of_sigs [OF one d]
    have d1: "distinct (map node_id (all_nodes (concat (map p_kids ?acc2) @ els1)))" .
    from Cons.IH [OF d1 cc1] langs False show ?thesis
      unfolding one grouped by (simp add: hide_all_hide_all)
  qed
qed

lemma move_fieldsets_langs:
  "map p_lang (fst (move_fieldsets fieldsets (panels, kids, els))) = map p_lang panels"
proof (induction fieldsets arbitrary: panels kids els)
  case Nil
  then show ?case by simp
next
  case (Cons fieldset fieldsets)
  let ?P = "take_in_panels fieldset panels"
  let ?K = "take_content fieldset kids"
  let ?E = "take_content fieldset els"
  have "move_fieldsets (fieldset # fieldsets) (panels, kids, els)
          = move_fieldsets fieldsets (fst ?P, fst ?K @ snd ?P @ snd ?K @ snd ?E, fst ?E)"
    by (simp split: prod.splits)
  then show ?case
    by (simp only: Cons.IH take_in_panels_langs)
qed

lemma create_contents_panels:
  "map p_lang (fst (create_contents langs lg (acc, els))) =
     map p_lang acc @
       map lang_code (filter (\<lambda>lang. langGroups_of lg (lang_code lang) \<noteq> []) langs)"
proof (induction langs arbitrary: acc els)
  case Nil
  then show ?case by simp
next
  case (Cons lang langs)
  let ?g = "langGroups_of lg (lang_code lang)"
  show ?case
  proof (cases "?g = []")
    case True
    with Cons.IH [of acc els] show ?thesis by simp
  next
    case False
    let ?M = "move_fieldsets ?g (acc, [], els)"
    let ?acc2 = "fst ?M @ [\<lparr>p_lang = lang_code lang, p_active = False,
                            p_kids = fst (snd ?M)\<rparr>]"
    have step: "create_contents (lang # langs) lg (acc, els)
                  = create_contents langs lg (?acc2, snd (snd ?M))"
      using False by (simp split: prod.splits)
    from Cons.IH [of ?acc2 "snd (snd ?M)"] False show ?thesis
      unfolding step by (simp add: move_fieldsets_langs)
  qed
qed

subsection \<open>The whole of initMultilingualTabs\<close>

lemma set_select_lang_tab:
  "set (select_lang_tab st) = {n \<in> set (all_nodes (document st)). marked n}"
  by (auto simp: select_lang_tab_def find_class_filter marked_def)

lemma keys_init_langGroups: "fst ` set (init_langGroups languages) = known_codes"
  by (simp add: init_langGroups_def known_codes_def image_image)

lemma langGroups_of_init: "langGroups_of (init_langGroups langs) k = []"
proof (cases "map_of (init_langGroups langs) k")
  case None
  then show ?thesis by (simp add: langGroups_of_def)
next
  case (Some arr)
  then have "(k, arr) \<in> set (init_langGroups langs)" by (rule map_of_SomeD)
  then have "arr = []" by (auto simp: init_langGroups_def)
  with Some show ?thesis by (simp add: langGroups_of_def)
qed

lemma categorize_page:
  assumes "categorize (select_lang_tab st) (init_langGroups languages) = Inr lg"
  shows "fst ` set lg = known_codes"
    and "set (langGroups_of lg k) =
           {node_id n |n. n \<in> set (select_lang_tab st) \<and> k \<in> known_codes \<and> matches k n}"
proof -
  from categorize_Inr [OF assms]
  have keys: "map fst lg = map fst (init_langGroups languages)"
    and sets: "\<And>k. set (langGroups_of lg k) =
            set (langGroups_of (init_langGroups languages) k) \<union>
              {node_id n |n. n \<in> set (select_lang_tab st) \<and>
                 k \<in> fst ` set (init_langGroups languages) \<and> matches k n}"
    by simp_all
  from keys have "fst ` set lg = fst ` set (init_langGroups languages)"
    by (simp add: keys_set del: set_map)
  then show "fst ` set lg = known_codes"
    by (simp add: keys_init_langGroups)
  show "set (langGroups_of lg k) =
           {node_id n |n. n \<in> set (select_lang_tab st) \<and> k \<in> known_codes \<and> matches k n}"
    unfolding sets [of k] langGroups_of_init keys_init_langGroups
    by simp
qed

lemma langGroups_of_nonempty:
  assumes "categorize (select_lang_tab st) (init_langGroups languages) = Inr lg"
  shows "(langGroups_of lg k \<noteq> []) =
           (k \<in> known_codes \<and> (\<exists>n \<in> set (select_lang_tab st). matches k n))"
proof -
  have "(langGroups_of lg k \<noteq> []) = (set (langGroups_of lg k) \<noteq> {})" by simp
  also have "\<dots> = (k \<in> known_codes \<and> (\<exists>n \<in> set (select_lang_tab st). matches k n))"
    unfolding categorize_page(2) [OF assms] by auto
  finally show ?thesis .
qed

lemma initMultilingualTabs_Inr:
  assumes "select_lang_tab st \<noteq> []"
    and "categorize (select_lang_tab st) (init_langGroups languages) = Inr lg"
    and "create_contents languages lg (tab_contents st, elements st) = (panels, els)"
  shows "initMultilingualTabs st =
           Inr (switchToTab
                  (if getSelectedTab st
                        \<in> h_lang ` set (tab_headers st @ create_headers languages lg [])
                   then getSelectedTab st else ''en'')
                  (st\<lparr>elements := els,
                      tab_headers := tab_headers st @ create_headers languages lg [],
                      tab_contents := panels\<rparr>))"
proof -
  let ?st1 = "st\<lparr>elements := els,
                 tab_headers := tab_headers st @ create_headers languages lg [],
                 tab_contents := panels\<rparr>"
  have sel: "getSelectedTab ?st1 = getSelectedTab st"
    by (simp add: getSelectedTab_def)
  have none: "(length (filter (\<lambda>h. h_lang h = c) hs) = 0) = (c \<notin> h_lang ` set hs)" for c hs
    by (auto simp: filter_empty_conv)
  from assms
  have "initMultilingualTabs st =
          Inr (switchToTab
                 (if length (filter (\<lambda>h. h_lang h = getSelectedTab ?st1) (tab_headers ?st1)) = 0
                  then ''en'' else getSelectedTab ?st1) ?st1)"
    by (simp add: initMultilingualTabs_def Let_def)
  then show ?thesis
    unfolding none sel by (simp cong: if_cong)
qed

lemma initMultilingualTabs_Inl:
  assumes "initMultilingualTabs st = Inl e"
  shows "e = TypeError \<and>
         (\<exists>n \<in> set (select_lang_tab st).
            (\<exists>c \<in> set (class_lang_codes (node_class n)).
               c \<notin> known_codes \<and> c \<in> set object_prototype_keys))"
proof -
  from assms
  have "categorize (select_lang_tab st) (init_langGroups languages) = Inl e"
    by (auto simp: initMultilingualTabs_def Let_def split: if_splits sum.splits prod.splits)
  from categorize_Inl [OF this] show ?thesis
    by (cases e) (auto simp: keys_init_langGroups)
qed

lemma count_key:
  "distinct (map f xs) \<Longrightarrow>
     length (filter (\<lambda>x. f x = c) (filter P xs)) =
       (if \<exists>x \<in> set xs. f x = c \<and> P x then 1 else 0)"
proof (induction xs)
  case Nil
  then show ?case by simp
next
  case (Cons x xs)
  then have IH: "length (filter (\<lambda>x. f x = c) (filter P xs)) =
       (if \<exists>x \<in> set xs. f x = c \<and> P x then 1 else 0)"
    and fresh: "f x \<notin> f ` set xs"
    by simp_all
  show ?case
  proof (cases "f x = c")
    case True
    with fresh have "\<forall>y \<in> set xs. f y \<noteq> c" by (metis imageI)
    then have "filter (\<lambda>x. f x = c) (filter P xs) = []" "\<not> (\<exists>y \<in> set xs. f y = c \<and> P y)"
      by (auto simp: filter_empty_conv)
    with True show ?thesis by simp
  next
    case False
    then have "(\<exists>y \<in> set (x # xs). f y = c \<and> P y) = (\<exists>y \<in> set xs. f y = c \<and> P y)"
      by auto
    moreover from False
    have "filter (\<lambda>x. f x = c) (filter P (x # xs)) = filter (\<lambda>x. f x = c) (filter P xs)"
      by simp
    ultimately show ?thesis using IH by (simp only:)
  qed
qed

lemma distinct_lang_codes: "distinct (map lang_code languages)"
  by (simp add: languages_def)

lemma count_by_key:
  "length (filter (\<lambda>x. f x = c) xs) = length (filter (\<lambda>k. k = c) (map f xs))"
  by (induction xs) auto

lemma grouped_page:
  assumes "categorize (select_lang_tab st) (init_langGroups languages) = Inr lg"
  shows "grouped lg languages =
           {node_id n |n. n \<in> set (select_lang_tab st) \<and> (\<exists>c \<in> known_codes. matches c n)}"
  unfolding grouped_def categorize_page(2) [OF assms]
  by (auto simp: known_codes_def)

lemma populated_languages:
  assumes "categorize (select_lang_tab st) (init_langGroups languages) = Inr lg"
  shows "filter (\<lambda>lang. langGroups_of lg (lang_code lang) \<noteq> []) languages =
         filter (\<lambda>lang. \<exists>n \<in> set (select_lang_tab st). matches (lang_code lang) n) languages"
proof (rule filter_cong [OF refl])
  fix lang assume "lang \<in> set languages"
  then have "lang_code lang \<in> known_codes" by (simp add: known_codes_def)
  then show "(langGroups_of lg (lang_code lang) \<noteq> []) =
               (\<exists>n \<in> set (select_lang_tab st). matches (lang_code lang) n)"
    by (simp add: langGroups_of_nonempty [OF assms])
qed

lemma document_switchToTab: "document (switchToTab langCode st) = document st"
proof -
  have "map p_kids (tab_contents (switchToTab langCode st)) = map p_kids (tab_contents st)"
    by (simp add: switchToTab_def Let_def removeClass_active_contents_def
        addClass_active_contents_def comp_def)
  then show ?thesis
    by (simp add: document_def switchToTab_elements)
qed

text \<open>
  What \<open>initMultilingualTabs\<close> returns on a page with a marked field group, when the
  categorising loop raises no error.
\<close>

lemma initMultilingualTabs_result:
  assumes init: "initMultilingualTabs st = Inr st'"
    and some: "select_lang_tab st \<noteq> []"
  shows "map h_lang (tab_headers st') =
           map h_lang (tab_headers st) @
             map lang_code
               (filter (\<lambda>lang. \<exists>n \<in> set (select_lang_tab st). matches (lang_code lang) n)
                  languages)"
    and "map p_lang (tab_contents st') =
           map p_lang (tab_contents st) @
             map lang_code
               (filter (\<lambda>lang. \<exists>n \<in> set (select_lang_tab st). matches (lang_code lang) n)
                  languages)"
    and "well_formed st \<Longrightarrow> sigs (document st') =
           image_mset
             (hide_all {node_id n |n. n \<in> set (select_lang_tab st)
                                      \<and> (\<exists>c \<in> known_codes. matches c n)})
             (sigs (document st))"
    and "localStorage st' = localStorage st"
proof -
  obtain lg where cat: "categorize (select_lang_tab st) (init_langGroups languages) = Inr lg"
    using init some
    by (cases "categorize (select_lang_tab st) (init_langGroups languages)")
       (simp_all add: initMultilingualTabs_def Let_def)
  obtain panels els where
    cc: "create_contents languages lg (tab_contents st, elements st) = (panels, els)"
    by (cases "create_contents languages lg (tab_contents st, elements st)")
  from initMultilingualTabs_Inr [OF some cat cc] init
  obtain sel where st': "st' = switchToTab sel
       (st\<lparr>elements := els, tab_headers := tab_headers st @ create_headers languages lg [],
           tab_contents := panels\<rparr>)"
    by simp
  have hl: "map h_lang (map (\<lambda>h. h\<lparr>h_active := a h\<rparr>) hs) = map h_lang hs" for a hs
    by (induction hs) auto
  have pl: "map p_lang (map (\<lambda>p. p\<lparr>p_active := a p\<rparr>) ps) = map p_lang ps" for a ps
    by (induction ps) auto
  show "map h_lang (tab_headers st') =
           map h_lang (tab_headers st) @
             map lang_code
               (filter (\<lambda>lang. \<exists>n \<in> set (select_lang_tab st). matches (lang_code lang) n)
                  languages)"
    unfolding st' switchToTab_headers hl
    by (simp add: create_headers_eq populated_languages [OF cat] tabHeader_def)
  from create_contents_panels [of languages lg "tab_contents st" "elements st"] cc
  show "map p_lang (tab_contents st') =
           map p_lang (tab_contents st) @
             map lang_code
               (filter (\<lambda>lang. \<exists>n \<in> set (select_lang_tab st). matches (lang_code lang) n)
                  languages)"
    unfolding st' switchToTab_contents pl
    by (simp add: populated_languages [OF cat])
  show "sigs (document st') =
           image_mset
             (hide_all {node_id n |n. n \<in> set (select_lang_tab st)
                                      \<and> (\<exists>c \<in> known_codes. matches c n)})
             (sigs (document st))"
    if "well_formed st"
  proof -
    from that
    have d: "distinct (map node_id (all_nodes (concat (map p_kids (tab_contents st)) @ elements st)))"
      by (simp add: well_formed_def document_def)
    have "document st' = concat (map p_kids panels) @ els"
      unfolding st' document_switchToTab by (simp add: document_def)
    with create_contents_sigs [OF d cc] show ?thesis
      unfolding grouped_page [OF cat] by (simp add: document_def)
  qed
  show "localStorage st' = localStorage st"
    unfolding st' by (simp add: switchToTab_localStorage)
qed

subsection \<open>Class attributes written with spaces\<close>

lemma split_on_cong:
  "(\<And>c. c \<in> set s \<Longrightarrow> p c = q c) \<Longrightarrow> split_on p s = split_on q s"
  by (induction s) simp_all

lemma js_split_space_tokens:
  assumes "space_separated cls"
  shows "js_split_space cls = split_on is_html_space cls"
proof -
  have "(c = CHR '' '') = is_html_space c" if "c \<in> set cls" for c
    using assms that by (auto simp: space_separated_def list_all_iff is_html_space_def)
  then show ?thesis
    unfolding js_split_space_def by (rule split_on_cong)
qed

lemma js_replace_lang: "js_replace ''lang-'' [] (''lang-'' @ code) = code"
  by simp

lemma lang_code_of_class:
  assumes "prefix ''lang-'' t"
  shows "t = ''lang-'' @ js_replace ''lang-'' [] t"
proof -
  from assms obtain r where t: "t = ''lang-'' @ r" by (auto simp: prefix_def)
  show ?thesis unfolding t js_replace_lang ..
qed

lemma class_lang_codes_tokens:
  assumes "space_separated cls"
  shows "set (class_lang_codes cls) =
           {code. ''lang-'' @ code \<in> set (class_tokens cls) \<and> code \<noteq> ''tab''}"
proof -
  have eq: "filter (\<lambda>t. prefix ''lang-'' t \<and> t \<noteq> ''lang-tab'') (split_on is_html_space cls) =
        filter (\<lambda>t. prefix ''lang-'' t \<and> t \<noteq> ''lang-tab'') (class_tokens cls)"
    unfolding class_tokens_def filter_filter
    by (rule filter_cong) auto
  have "set (class_lang_codes cls) =
          js_replace ''lang-'' [] `
            {t \<in> set (class_tokens cls). prefix ''lang-'' t \<and> t \<noteq> ''lang-tab''}"
    unfolding class_lang_codes_def lang_codes_def js_split_space_tokens [OF assms] eq
    by simp
  also have "\<dots> = {code. ''lang-'' @ code \<in> set (class_tokens cls) \<and> code \<noteq> ''tab''}"
  proof (intro set_eqI iffI)
    fix code
    assume "code \<in> js_replace ''lang-'' [] `
              {t \<in> set (class_tokens cls). prefix ''lang-'' t \<and> t \<noteq> ''lang-tab''}"
    then obtain t where t: "t \<in> set (class_tokens cls)" "prefix ''lang-'' t" "t \<noteq> ''lang-tab''"
      and code: "code = js_replace ''lang-'' [] t"
      by blast
    from lang_code_of_class [OF t(2)] code have "t = ''lang-'' @ code" by simp
    with t show "code \<in> {code. ''lang-'' @ code \<in> set (class_tokens cls) \<and> code \<noteq> ''tab''}"
      by auto
  next
    fix code
    assume "code \<in> {code. ''lang-'' @ code \<in> set (class_tokens cls) \<and> code \<noteq> ''tab''}"
    then have t: "''lang-'' @ code \<in> set (class_tokens cls)" and "code \<noteq> ''tab''"
      by simp_all
    then have "''lang-'' @ code \<noteq> ''lang-tab''" by simp
    moreover have p: "prefix ''lang-'' (''lang-'' @ code)" by simp
    moreover have "js_replace ''lang-'' [] (''lang-'' @ code) = code"
      by (rule js_replace_lang)
    ultimately show "code \<in> js_replace ''lang-'' [] `
              {t \<in> set (class_tokens cls). prefix ''lang-'' t \<and> t \<noteq> ''lang-tab''}"
      using t by (intro image_eqI [where x = "''lang-'' @ code"]) simp_all
  qed
  finally show ?thesis .
qed

lemma matches_has_lang:
  assumes "space_separated (node_class n)"
  shows "matches code n = (has_lang code n \<and> code \<noteq> ''tab'')"
  by (simp add: matches_def has_lang_def has_class_def class_lang_codes_tokens [OF assms])

lemma known_not_tab: "code \<in> known_codes \<Longrightarrow> code \<noteq> ''tab''"
  by (auto simp: known_codes_def languages_def)

lemma known_languages_only_codes:
  assumes "known_languages_only n"
  shows "class_lang_codes (node_class n) \<noteq> []"
    and "set (class_lang_codes (node_class n)) \<subseteq> known_codes"
proof -
  from assms have sp: "space_separated (node_class n)"
    and has: "\<exists>code \<in> known_codes. has_lang code n"
    and only: "set (lang_classes (node_class n))
           \<subseteq> insert ''lang-tab'' ((\<lambda>code. ''lang-'' @ code) ` known_codes)"
    by (simp_all add: known_languages_only_def)
  from has obtain code where "code \<in> known_codes" "has_lang code n" by blast
  then have "matches code n"
    by (simp add: matches_has_lang [OF sp] known_not_tab)
  then show "class_lang_codes (node_class n) \<noteq> []"
    by (auto simp: matches_def)
  show "set (class_lang_codes (node_class n)) \<subseteq> known_codes"
  proof
    fix c assume "c \<in> set (class_lang_codes (node_class n))"
    then have t: "''lang-'' @ c \<in> set (class_tokens (node_class n))" and c: "c \<noteq> ''tab''"
      by (simp_all add: class_lang_codes_tokens [OF sp])
    then have "''lang-'' @ c \<in> set (lang_classes (node_class n))"
      by (simp add: lang_classes_def)
    with only have "''lang-'' @ c \<in> insert ''lang-tab'' ((\<lambda>code. ''lang-'' @ code) ` known_codes)"
      by blast
    with c show "c \<in> known_codes" by auto
  qed
qed

lemma count_tabs:
  assumes "code \<in> known_codes"
  shows "length (filter (\<lambda>k. k = code)
           (map lang_code (filter (\<lambda>lang. Q (lang_code lang)) languages))) =
         (if Q code then 1 else 0)"
proof -
  have "length (filter (\<lambda>k. k = code)
           (map lang_code (filter (\<lambda>lang. Q (lang_code lang)) languages))) =
        length (filter (\<lambda>lang. lang_code lang = code)
           (filter (\<lambda>lang. Q (lang_code lang)) languages))"
    by (rule count_by_key [symmetric])
  also have "\<dots> = (if \<exists>lang \<in> set languages. lang_code lang = code \<and> Q (lang_code lang)
                     then 1 else 0)"
    by (rule count_key [OF distinct_lang_codes])
  also have "(\<exists>lang \<in> set languages. lang_code lang = code \<and> Q (lang_code lang)) = Q code"
    using assms by (auto simp: known_codes_def)
  finally show ?thesis .
qed

lemma initMultilingualTabs_known_only:
  assumes "\<forall>n \<in> set (select_lang_tab st).
             set (class_lang_codes (node_class n)) \<subseteq> known_codes"
  shows "\<exists>st'. initMultilingualTabs st = Inr st'"
proof (cases "initMultilingualTabs st")
  case (Inl e)
  from initMultilingualTabs_Inl [OF this] assms show ?thesis by blast
next
  case (Inr st')
  then show ?thesis by simp
qed

lemma sigs_member:
  assumes "sigs forest' = image_mset (hide_all ids) (sigs forest)"
    and "n \<in> set (all_nodes forest)"
  shows "\<exists>n' \<in> set (all_nodes forest').
           node_id n' = node_id n \<and> node_class n' = node_class n
           \<and> node_hidden n' = (node_hidden n \<or> node_id n \<in> ids)"
proof -
  from assms(2) have "sig n \<in># sigs forest"
    by (simp add: sigs_def)
  then have "hide_all ids (sig n) \<in># image_mset (hide_all ids) (sigs forest)"
    by simp
  then have "hide_all ids (sig n) \<in> sig ` set (all_nodes forest')"
    unfolding assms(1) [symmetric] by (simp add: sigs_def)
  then obtain n' where "n' \<in> set (all_nodes forest')" "sig n' = hide_all ids (sig n)"
    by auto
  then show ?thesis
    by (auto simp: sig_def hide_all_def)
qed

lemma marked_by_id:
  assumes "well_formed st" and "n \<in> set (all_nodes (document st))"
  shows "(node_id n \<in> node_id ` set (select_lang_tab st)) = marked n"
proof
  assume "node_id n \<in> node_id ` set (select_lang_tab st)"
  then obtain m where m: "m \<in> set (all_nodes (document st))" "marked m"
    and same: "node_id m = node_id n"
    by (auto simp: set_select_lang_tab)
  from assms(1) have "inj_on node_id (set (all_nodes (document st)))"
    by (simp add: well_formed_def distinct_map)
  from inj_onD [OF this same m(1) assms(2)] m(2) show "marked n" by simp
next
  assume "marked n"
  with assms(2) show "node_id n \<in> node_id ` set (select_lang_tab st)"
    by (simp add: set_select_lang_tab)
qed

text \<open>
  The tabs and the document after \<open>initMultilingualTabs\<close>, in terms of the codes that the
  categorising loop reads.
\<close>

lemma tabs_per_code:
  assumes fresh: "fresh st" and wf: "well_formed st"
    and known: "\<forall>n \<in> set (select_lang_tab st).
             class_lang_codes (node_class n) \<noteq> [] \<and>
             set (class_lang_codes (node_class n)) \<subseteq> known_codes"
  shows "\<exists>st'. initMultilingualTabs st = Inr st' \<and>
     (\<forall>code \<in> known_codes.
        length (filter (\<lambda>h. h_lang h = code) (tab_headers st')) =
          (if \<exists>n \<in> set (select_lang_tab st). matches code n then 1 else 0) \<and>
        length (filter (\<lambda>p. p_lang p = code) (tab_contents st')) =
          (if \<exists>n \<in> set (select_lang_tab st). matches code n then 1 else 0)) \<and>
     h_lang ` set (tab_headers st') \<subseteq> known_codes \<and>
     p_lang ` set (tab_contents st') \<subseteq> known_codes \<and>
     sigs (document st') =
       image_mset (hide_all (node_id ` set (select_lang_tab st))) (sigs (document st))"
proof -
  let ?has = "\<lambda>code. \<exists>n \<in> set (select_lang_tab st). matches code n"
  from known obtain st' where init: "initMultilingualTabs st = Inr st'"
    using initMultilingualTabs_known_only [of st] by blast
  from fresh have empty: "tab_headers st = []" "tab_contents st = []"
    by (simp_all add: fresh_def)
  show ?thesis
  proof (cases "select_lang_tab st = []")
    case True
    with init have same: "st' = st"
      by (simp add: initMultilingualTabs_def)
    from True init show ?thesis
      unfolding same by (simp add: empty hide_all_empty)
  next
    case False
    note res = initMultilingualTabs_result [OF init False]
    have hl: "map h_lang (tab_headers st') = map lang_code (filter (\<lambda>lang. ?has (lang_code lang)) languages)"
      using res(1) by (simp add: empty)
    have pl: "map p_lang (tab_contents st') = map lang_code (filter (\<lambda>lang. ?has (lang_code lang)) languages)"
      using res(2) by (simp add: empty)
    have counts: "length (filter (\<lambda>h. h_lang h = code) (tab_headers st')) = (if ?has code then 1 else 0)
        \<and> length (filter (\<lambda>p. p_lang p = code) (tab_contents st')) = (if ?has code then 1 else 0)"
      if "code \<in> known_codes" for code
      unfolding count_by_key [of h_lang] count_by_key [of p_lang] hl pl
      using count_tabs [OF that, of ?has] by simp
    have "set (map h_lang (tab_headers st')) \<subseteq> known_codes"
      unfolding hl by (auto simp: known_codes_def)
    then have hk: "h_lang ` set (tab_headers st') \<subseteq> known_codes" by simp
    have "set (map p_lang (tab_contents st')) \<subseteq> known_codes"
      unfolding pl by (auto simp: known_codes_def)
    then have pk: "p_lang ` set (tab_contents st') \<subseteq> known_codes" by simp
    have some: "\<exists>c \<in> known_codes. matches c n" if n: "n \<in> set (select_lang_tab st)" for n
    proof -
      from known n
      have ne: "class_lang_codes (node_class n) \<noteq> []"
        and sub: "set (class_lang_codes (node_class n)) \<subseteq> known_codes"
        by blast+
      from ne obtain c where c: "c \<in> set (class_lang_codes (node_class n))"
        by (cases "class_lang_codes (node_class n)") auto
      with sub have "c \<in> known_codes" by blast
      with c show ?thesis
        by (auto simp: matches_def)
    qed
    have "{node_id n |n. n \<in> set (select_lang_tab st) \<and> (\<exists>c \<in> known_codes. matches c n)}
            = node_id ` set (select_lang_tab st)"
      using some by blast
    with res(3) [OF wf]
    have sg: "sigs (document st') =
       image_mset (hide_all (node_id ` set (select_lang_tab st))) (sigs (document st))"
      by simp
    from init counts hk pk sg show ?thesis by blast
  qed
qed

lemma example_codes:
  "class_lang_codes ''module aligned lang-tab lang-en'' = [''en'']"
  "class_lang_codes ''module aligned lang-tab lang-mk'' = [''mk'']"
  "class_lang_codes ''module aligned lang-tab lang-fr'' = [''fr'']"
  "class_lang_codes ''module aligned'' = []"
  by (simp_all add: class_lang_codes_def lang_codes_def string_defs)

lemma example_marked:
  "has_class ''lang-tab'' ''module aligned lang-tab lang-en''"
  "has_class ''lang-tab'' ''module aligned lang-tab lang-mk''"
  "has_class ''lang-tab'' ''module aligned lang-tab lang-fr''"
  "\<not> has_class ''lang-tab'' ''module aligned''"
  by (simp_all add: string_defs)

lemma known_codes_eq: "known_codes = {''en'', ''mk''}"
  by (simp add: known_codes_def languages_def)

lemma example_known_only:
  "known_languages_only (Node i ''module aligned lang-tab lang-en'' h ks)"
  "known_languages_only (Node i ''module aligned lang-tab lang-mk'' h ks)"
  by (simp_all add: known_languages_only_def space_separated_def has_lang_def lang_classes_def
        known_codes_eq string_defs)

lemma has_lang_marked:
  assumes "\<forall>n \<in> set ns. space_separated (node_class n)"
    and "code \<in> known_codes"
  shows "(\<exists>n \<in> set ns. matches code n) = (\<exists>n \<in> set ns. has_lang code n)"
  using assms by (auto simp: matches_has_lang known_not_tab)

text \<open>
  Claim C3. Take a freshly loaded page, well formed and without tab markup of its own, on
  which every marked field group, wherever it is in the document, is of the known
  languages only, and a stored selection that the selector of line 97 can carry. Then
  \<open>initMultilingualTabs\<close> returns normally. Afterwards, for each known language, the
  number of headers and the number of panels of that language is one when a marked group
  has the language and zero otherwise, and there is no header or panel of any other
  language. The document has the elements it had, each with its identity and class
  attribute and none twice; the marked groups are hidden, and no other element changed
  its visibility.
\<close>

theorem one_tab_per_language:
  assumes fresh: "fresh st" and wf: "well_formed st" and plain: "no_tab_markup st"
    and stored: "selector_safe (getSelectedTab st)"
    and known: "\<forall>n \<in> set (select_lang_tab st). known_languages_only n"
  shows "\<exists>st'. initMultilingualTabs st = Inr st' \<and>
     (\<forall>code \<in> known_codes.
        length (filter (\<lambda>h. h_lang h = code) (tab_headers st')) =
          (if \<exists>n \<in> set (select_lang_tab st). has_lang code n then 1 else 0) \<and>
        length (filter (\<lambda>p. p_lang p = code) (tab_contents st')) =
          (if \<exists>n \<in> set (select_lang_tab st). has_lang code n then 1 else 0)) \<and>
     h_lang ` set (tab_headers st') \<subseteq> known_codes \<and>
     p_lang ` set (tab_contents st') \<subseteq> known_codes \<and>
     sigs (document st') =
       image_mset (hide_all (node_id ` set (select_lang_tab st))) (sigs (document st)) \<and>
     (\<forall>n \<in> set (all_nodes (document st)).
        \<exists>n' \<in> set (all_nodes (document st')).
          node_id n' = node_id n \<and> node_class n' = node_class n
          \<and> node_hidden n' = (node_hidden n \<or> marked n))"
proof -
  from known have codes: "\<forall>n \<in> set (select_lang_tab st).
             class_lang_codes (node_class n) \<noteq> [] \<and>
             set (class_lang_codes (node_class n)) \<subseteq> known_codes"
    by (simp add: known_languages_only_codes)
  from known have sp: "\<forall>n \<in> set (select_lang_tab st). space_separated (node_class n)"
    by (simp add: known_languages_only_def)
  from tabs_per_code [OF fresh wf codes] obtain st' where
    init: "initMultilingualTabs st = Inr st'"
    and counts: "\<forall>code \<in> known_codes.
        length (filter (\<lambda>h. h_lang h = code) (tab_headers st')) =
          (if \<exists>n \<in> set (select_lang_tab st). matches code n then 1 else 0) \<and>
        length (filter (\<lambda>p. p_lang p = code) (tab_contents st')) =
          (if \<exists>n \<in> set (select_lang_tab st). matches code n then 1 else 0)"
    and rest: "h_lang ` set (tab_headers st') \<subseteq> known_codes"
      "p_lang ` set (tab_contents st') \<subseteq> known_codes"
    and sg: "sigs (document st') =
       image_mset (hide_all (node_id ` set (select_lang_tab st))) (sigs (document st))"
    by blast
  have "\<forall>code \<in> known_codes.
        length (filter (\<lambda>h. h_lang h = code) (tab_headers st')) =
          (if \<exists>n \<in> set (select_lang_tab st). has_lang code n then 1 else 0) \<and>
        length (filter (\<lambda>p. p_lang p = code) (tab_contents st')) =
          (if \<exists>n \<in> set (select_lang_tab st). has_lang code n then 1 else 0)"
  proof
    fix code assume code: "code \<in> known_codes"
    with counts show "length (filter (\<lambda>h. h_lang h = code) (tab_headers st')) =
          (if \<exists>n \<in> set (select_lang_tab st). has_lang code n then 1 else 0) \<and>
        length (filter (\<lambda>p. p_lang p = code) (tab_contents st')) =
          (if \<exists>n \<in> set (select_lang_tab st). has_lang code n then 1 else 0)"
      unfolding has_lang_marked [OF sp code, symmetric] by blast
  qed
  moreover have "\<forall>n \<in> set (all_nodes (document st)).
        \<exists>n' \<in> set (all_nodes (document st')).
          node_id n' = node_id n \<and> node_class n' = node_class n
          \<and> node_hidden n' = (node_hidden n \<or> marked n)"
  proof
    fix n assume n: "n \<in> set (all_nodes (document st))"
    from sigs_member [OF sg n] show "\<exists>n' \<in> set (all_nodes (document st')).
          node_id n' = node_id n \<and> node_class n' = node_class n
          \<and> node_hidden n' = (node_hidden n \<or> marked n)"
      unfolding marked_by_id [OF wf n] .
  qed
  ultimately show ?thesis
    using init rest sg by blast
qed

theorem one_tab_per_language_witness:
  "\<exists>st'. initMultilingualTabs (page en_wrapped_mk_form) = Inr st' \<and>
     length (filter (\<lambda>h. h_lang h = ''en'') (tab_headers st')) = 1 \<and>
     length (filter (\<lambda>h. h_lang h = ''mk'') (tab_headers st')) = 1 \<and>
     length (filter (\<lambda>p. p_lang p = ''en'') (tab_contents st')) = 1 \<and>
     length (filter (\<lambda>p. p_lang p = ''mk'') (tab_contents st')) = 1 \<and>
     (\<exists>n' \<in> set (all_nodes (document st')).
        node_id n' = 1 \<and> node_class n' = ''module aligned lang-tab lang-en'' \<and> node_hidden n') \<and>
     (\<exists>n' \<in> set (all_nodes (document st')).
        node_id n' = 3 \<and> node_class n' = ''wrapper'' \<and> \<not> node_hidden n') \<and>
     (\<exists>n' \<in> set (all_nodes (document st')).
        node_id n' = 4 \<and> node_class n' = ''module aligned lang-tab lang-mk'' \<and> node_hidden n')"
proof -
  let ?st = "page en_wrapped_mk_form"
  have doc: "document ?st = en_wrapped_mk_form"
    by (simp add: page_def document_def)
  have sel: "select_lang_tab ?st =
      [Node 1 ''module aligned lang-tab lang-en'' False
         [Node 2 ''form-row field-title'' False []],
       Node 4 ''module aligned lang-tab lang-mk'' False
         [Node 5 ''form-row field-title_mk'' False []]]"
    unfolding select_lang_tab_def doc
    by (simp add: en_wrapped_mk_form_def string_defs)
  have fresh: "fresh ?st" and wf: "well_formed ?st"
    and stored: "selector_safe (getSelectedTab ?st)"
    unfolding well_formed_def doc
    by (simp_all add: page_defs selector_safe_def getSelectedTab_def)
  have plain: "no_tab_markup ?st"
    unfolding no_tab_markup_def doc
    by (simp add: en_wrapped_mk_form_def string_defs)
  have known: "\<forall>n \<in> set (select_lang_tab ?st). known_languages_only n"
    unfolding sel by (simp add: example_known_only)
  have codes: "''en'' \<in> known_codes" "''mk'' \<in> known_codes"
    by (simp_all add: known_codes_eq)
  have en: "\<exists>n \<in> set (select_lang_tab ?st). has_lang ''en'' n"
    unfolding sel by (simp add: has_lang_def string_defs)
  have mk: "\<exists>n \<in> set (select_lang_tab ?st). has_lang ''mk'' n"
    unfolding sel by (simp add: has_lang_def string_defs)
  let ?n1 = "Node 1 ''module aligned lang-tab lang-en'' False
         [Node 2 ''form-row field-title'' False []]"
  let ?n4 = "Node 4 ''module aligned lang-tab lang-mk'' False
         [Node 5 ''form-row field-title_mk'' False []]"
  let ?n3 = "Node 3 ''wrapper'' False [?n4]"
  have els: "?n1 \<in> set (all_nodes (document ?st))" "?n3 \<in> set (all_nodes (document ?st))"
    "?n4 \<in> set (all_nodes (document ?st))"
    unfolding doc by (simp_all add: en_wrapped_mk_form_def)
  have m: "marked ?n1" "\<not> marked ?n3" "marked ?n4"
    by (simp_all add: marked_def string_defs)
  from one_tab_per_language [OF fresh wf plain stored known] obtain st' where
    init: "initMultilingualTabs ?st = Inr st'"
    and counts: "\<forall>code \<in> known_codes.
        length (filter (\<lambda>h. h_lang h = code) (tab_headers st')) =
          (if \<exists>n \<in> set (select_lang_tab ?st). has_lang code n then 1 else 0) \<and>
        length (filter (\<lambda>p. p_lang p = code) (tab_contents st')) =
          (if \<exists>n \<in> set (select_lang_tab ?st). has_lang code n then 1 else 0)"
    and each: "\<forall>n \<in> set (all_nodes (document ?st)).
        \<exists>n' \<in> set (all_nodes (document st')).
          node_id n' = node_id n \<and> node_class n' = node_class n
          \<and> node_hidden n' = (node_hidden n \<or> marked n)"
    by blast
  from counts codes en mk
  have "length (filter (\<lambda>h. h_lang h = ''en'') (tab_headers st')) = 1"
    "length (filter (\<lambda>h. h_lang h = ''mk'') (tab_headers st')) = 1"
    "length (filter (\<lambda>p. p_lang p = ''en'') (tab_contents st')) = 1"
    "length (filter (\<lambda>p. p_lang p = ''mk'') (tab_contents st')) = 1"
    by simp_all
  moreover from each [rule_format, OF els(1)] m(1)
  have "\<exists>n' \<in> set (all_nodes (document st')).
        node_id n' = 1 \<and> node_class n' = ''module aligned lang-tab lang-en'' \<and> node_hidden n'"
    by simp
  moreover from each [rule_format, OF els(2)] m(2)
  have "\<exists>n' \<in> set (all_nodes (document st')).
        node_id n' = 3 \<and> node_class n' = ''wrapper'' \<and> \<not> node_hidden n'"
    by simp
  moreover from each [rule_format, OF els(3)] m(3)
  have "\<exists>n' \<in> set (all_nodes (document st')).
        node_id n' = 4 \<and> node_class n' = ''module aligned lang-tab lang-mk'' \<and> node_hidden n'"
    by simp
  ultimately show ?thesis
    using init by blast
qed

subsection \<open>Which tab is active after initMultilingualTabs\<close>

lemma initMultilingualTabs_active:
  assumes init: "initMultilingualTabs st = Inr st'"
    and some: "select_lang_tab st \<noteq> []"
  shows "\<exists>sel. sel = (if getSelectedTab st \<in> h_lang ` set (tab_headers st')
                      then getSelectedTab st else ''en'') \<and>
           (\<forall>h \<in> set (tab_headers st'). h_active h = (h_lang h = sel)) \<and>
           (\<forall>p \<in> set (tab_contents st'). p_active p = (p_lang p = sel))"
proof -
  obtain lg where cat: "categorize (select_lang_tab st) (init_langGroups languages) = Inr lg"
    using init some
    by (cases "categorize (select_lang_tab st) (init_langGroups languages)")
       (simp_all add: initMultilingualTabs_def Let_def)
  obtain panels els where
    cc: "create_contents languages lg (tab_contents st, elements st) = (panels, els)"
    by (cases "create_contents languages lg (tab_contents st, elements st)")
  let ?hs = "tab_headers st @ create_headers languages lg []"
  define sel where
    "sel = (if getSelectedTab st \<in> h_lang ` set ?hs then getSelectedTab st else ''en'')"
  from initMultilingualTabs_Inr [OF some cat cc] init
  have st': "st' = switchToTab sel
       (st\<lparr>elements := els, tab_headers := ?hs, tab_contents := panels\<rparr>)"
    unfolding sel_def by simp
  have "map h_lang (tab_headers st') = map h_lang ?hs"
    unfolding st' by (simp add: switchToTab_headers comp_def)
  then have langs: "h_lang ` set (tab_headers st') = h_lang ` set ?hs"
    by (metis set_map)
  have "\<forall>h \<in> set (tab_headers st'). h_active h = (h_lang h = sel)"
    unfolding st' switchToTab_headers by auto
  moreover have "\<forall>p \<in> set (tab_contents st'). p_active p = (p_lang p = sel)"
    unfolding st' switchToTab_contents by auto
  moreover have "sel = (if getSelectedTab st \<in> h_lang ` set (tab_headers st')
                      then getSelectedTab st else ''en'')"
    unfolding langs sel_def ..
  ultimately show ?thesis
    by blast
qed

text \<open>
  Claim C2. The code does not do what the claim says on a page whose only marked field
  groups are Macedonian when nothing (or \<open>en\<close>) is stored: the Macedonian header and panel
  are built, the group is hidden, \<open>getSelectedTab\<close> answers \<open>en\<close>, no header has that
  language, the fallback chooses \<open>en\<close> again, and \<open>switchToTab\<close> activates nothing.
\<close>

theorem init_mk_only_no_active_tab:
  "\<exists>st'. initMultilingualTabs (page mk_only_form) = Inr st'
     \<and> map h_lang (tab_headers st') = [''mk'']
     \<and> map h_active (tab_headers st') = [False]
     \<and> map p_lang (tab_contents st') = [''mk'']
     \<and> map p_active (tab_contents st') = [False]
     \<and> map node_hidden (elements st') = [True]"
  by (simp add: page_defs init_defs string_defs tab_defs)

subsection \<open>Keyboard shortcuts and clicks\<close>

lemma init_en_only_form: "initMultilingualTabs (page en_only_form) = Inr en_only_tabs"
  by (simp add: page_defs en_only_tabs_def init_defs string_defs tab_defs)

lemma keydown_2: 
  "ctrlKey e \<or> metaKey e \<Longrightarrow> which e = 50 \<Longrightarrow> keydown e st = (True, switchToTab ''mk'' st)"
  by (simp add: keydown_def)

text \<open>
  A click on a header switches to the header's language and stores it.
\<close>

lemma click_header_persists:
  assumes "i < length (tab_headers st)"
  shows "getSelectedTab (click_header i st) =
           (if h_lang (tab_headers st ! i) = [] then ''en'' else h_lang (tab_headers st ! i))"
    and "tab_headers (click_header i st) =
           map (\<lambda>h. h\<lparr>h_active := (h_lang h = h_lang (tab_headers st ! i))\<rparr>) (tab_headers st)"
  using assms
  by (simp_all add: click_header_def Let_def getSelectedTab_def saveSelectedTab_def
        switchToTab_simps)

text \<open>
  Claim C1, amended. In every state that has a header and a panel of language \<open>mk\<close>,
  the key handler on Ctrl+2 or Cmd+2 prevents the default action and leaves active
  exactly the headers and panels of language \<open>mk\<close>, of which there is at least one each;
  the form elements are not touched. Nothing is assumed about the tab that was active
  or about \<open>localStorage\<close>.
\<close>

theorem keydown_2_activates_mk:
  assumes "ctrlKey e \<or> metaKey e" and "which e = 50"
    and "''mk'' \<in> h_lang ` set (tab_headers st)"
    and "''mk'' \<in> p_lang ` set (tab_contents st)"
  shows "fst (keydown e st)
     \<and> (\<forall>h \<in> set (tab_headers (snd (keydown e st))). h_active h = (h_lang h = ''mk''))
     \<and> (\<forall>p \<in> set (tab_contents (snd (keydown e st))). p_active p = (p_lang p = ''mk''))
     \<and> (\<exists>h \<in> set (tab_headers (snd (keydown e st))). h_lang h = ''mk'' \<and> h_active h)
     \<and> (\<exists>p \<in> set (tab_contents (snd (keydown e st))). p_lang p = ''mk'' \<and> p_active p)
     \<and> map h_lang (tab_headers (snd (keydown e st))) = map h_lang (tab_headers st)
     \<and> map p_lang (tab_contents (snd (keydown e st))) = map p_lang (tab_contents st)
     \<and> elements (snd (keydown e st)) = elements st"
proof -
  from assms(1,2) have k: "keydown e st = (True, switchToTab ''mk'' st)"
    by (rule keydown_2)
  from assms(3) obtain h where "h \<in> set (tab_headers st)" "h_lang h = ''mk''" by auto
  then have h: "\<exists>h \<in> set (tab_headers (switchToTab ''mk'' st)). h_lang h = ''mk'' \<and> h_active h"
    unfolding switchToTab_headers by (auto intro!: bexI [of _ h])
  from assms(4) obtain p where "p \<in> set (tab_contents st)" "p_lang p = ''mk''" by auto
  then have p: "\<exists>p \<in> set (tab_contents (switchToTab ''mk'' st)). p_lang p = ''mk'' \<and> p_active p"
    unfolding switchToTab_contents by (auto intro!: bexI [of _ p])
  show ?thesis
    unfolding k using h p by (simp add: switchToTab_simps comp_def)
qed

theorem keydown_2_activates_mk_witness:
  "fst (keydown ctrl_2 en_mk_tabs)
   \<and> map h_lang (tab_headers (snd (keydown ctrl_2 en_mk_tabs))) = [''en'', ''mk'']
   \<and> map h_active (tab_headers (snd (keydown ctrl_2 en_mk_tabs))) = [False, True]
   \<and> map p_lang (tab_contents (snd (keydown ctrl_2 en_mk_tabs))) = [''en'', ''mk'']
   \<and> map p_active (tab_contents (snd (keydown ctrl_2 en_mk_tabs))) = [False, True]"
proof -
  have "ctrlKey ctrl_2 \<or> metaKey ctrl_2" "which ctrl_2 = 50"
    "''mk'' \<in> h_lang ` set (tab_headers en_mk_tabs)"
    "''mk'' \<in> p_lang ` set (tab_contents en_mk_tabs)"
    by (simp_all add: ctrl_2_def en_mk_tabs_def languages_def tabHeader_def)
  from keydown_2_activates_mk [OF this]
  have "fst (keydown ctrl_2 en_mk_tabs)"
    and "\<forall>h \<in> set (tab_headers (snd (keydown ctrl_2 en_mk_tabs))). h_active h = (h_lang h = ''mk'')"
    and "\<forall>p \<in> set (tab_contents (snd (keydown ctrl_2 en_mk_tabs))). p_active p = (p_lang p = ''mk'')"
    and "map h_lang (tab_headers (snd (keydown ctrl_2 en_mk_tabs))) = map h_lang (tab_headers en_mk_tabs)"
    and "map p_lang (tab_contents (snd (keydown ctrl_2 en_mk_tabs))) = map p_lang (tab_contents en_mk_tabs)"
    by simp_all
  moreover have "map h_lang (tab_headers en_mk_tabs) = [''en'', ''mk'']"
    "map p_lang (tab_contents en_mk_tabs) = [''en'', ''mk'']"
    by (simp_all add: en_mk_tabs_def languages_def tabHeader_def)
  ultimately show ?thesis
    by (simp add: keydown_def ctrl_2_def switchToTab_simps en_mk_tabs_def languages_def
          tabHeader_def)
qed

text \<open>
  The claim as stated fails twice. On the tabs built from a page with English groups
  only, Ctrl+2 leaves no header and no panel active, and the key is still absent from
  \<open>localStorage\<close>. On the tabs built from a page with groups of both languages, Ctrl+2
  activates the Macedonian tab, and the key is still absent from \<open>localStorage\<close>, so
  \<open>getSelectedTab\<close> still answers \<open>en\<close>.
\<close>

theorem keydown_2_counterexample:
  "initMultilingualTabs (page en_only_form) = Inr en_only_tabs
   \<and> tab_headers en_only_tabs \<noteq> []
   \<and> filter h_active (tab_headers (snd (keydown ctrl_2 en_only_tabs))) = []
   \<and> filter p_active (tab_contents (snd (keydown ctrl_2 en_only_tabs))) = []
   \<and> localStorage (snd (keydown ctrl_2 en_only_tabs)) ''selectedLangTab'' \<noteq> Some ''mk''
   \<and> initMultilingualTabs (page en_mk_form) = Inr en_mk_tabs
   \<and> map h_active (tab_headers (snd (keydown ctrl_2 en_mk_tabs))) = [False, True]
   \<and> localStorage (snd (keydown ctrl_2 en_mk_tabs)) ''selectedLangTab'' \<noteq> Some ''mk''
   \<and> getSelectedTab (snd (keydown ctrl_2 en_mk_tabs)) = ''en''"
  by (simp add: init_en_only_form init_en_mk_form keydown_def ctrl_2_def switchToTab_simps
        en_only_tabs_def en_mk_tabs_def languages_def tabHeader_def getSelectedTab_def)

subsection \<open>The order of the deferred scan\<close>

lemma each_tabContent_none:
  "\<forall>q \<in> set ps. \<not> has_error_marker q \<Longrightarrow> each_tabContent ps st = (ps, st)"
  by (induction ps) (simp_all add: has_error_marker_def)

lemma each_tabContent_first:
  "\<forall>q \<in> set pre. \<not> has_error_marker q \<Longrightarrow> has_error_marker p \<Longrightarrow>
     each_tabContent (pre @ p # post) st = (pre @ [p], switchToTab (p_lang p) st)"
  by (induction pre) (simp_all add: has_error_marker_def)

text \<open>
  Claim C5. When the panels are \<open>pre @ p # post\<close>, no panel of \<open>pre\<close> contains an error
  marker and \<open>p\<close> contains one, the scan calls its function on the panels of \<open>pre\<close> and on
  \<open>p\<close>, in this order, and on no panel of \<open>post\<close>; its result is \<open>switchToTab\<close> of the
  language of \<open>p\<close>, so \<open>p\<close> is active afterwards. When no panel contains an error marker,
  the scan calls its function on every panel, in order, and returns the state unchanged.
\<close>

theorem showTabWithErrors_first_error:
  "(tab_contents st = pre @ p # post \<and> (\<forall>q \<in> set pre. \<not> has_error_marker q)
      \<and> has_error_marker p \<longrightarrow>
      panels_scanned st = pre @ [p]
      \<and> showTabWithErrors st = switchToTab (p_lang p) st
      \<and> tab_contents (showTabWithErrors st) ! length pre = p\<lparr>p_active := True\<rparr>)
   \<and> ((\<forall>q \<in> set (tab_contents st). \<not> has_error_marker q) \<longrightarrow>
      panels_scanned st = tab_contents st \<and> showTabWithErrors st = st)"
proof (intro conjI impI)
  assume a: "tab_contents st = pre @ p # post \<and> (\<forall>q \<in> set pre. \<not> has_error_marker q)
      \<and> has_error_marker p"
  then have e: "each_tabContent (tab_contents st) st = (pre @ [p], switchToTab (p_lang p) st)"
    by (simp add: each_tabContent_first)
  then show "panels_scanned st = pre @ [p]"
    by (simp add: panels_scanned_def)
  from e show s: "showTabWithErrors st = switchToTab (p_lang p) st"
    by (simp add: showTabWithErrors_def)
  from a show "tab_contents (showTabWithErrors st) ! length pre = p\<lparr>p_active := True\<rparr>"
    unfolding s switchToTab_contents by (simp add: nth_append)
next
  assume "\<forall>q \<in> set (tab_contents st). \<not> has_error_marker q"
  then have e: "each_tabContent (tab_contents st) st = (tab_contents st, st)"
    by (rule each_tabContent_none)
  then show "panels_scanned st = tab_contents st"
    by (simp add: panels_scanned_def)
  from e show "showTabWithErrors st = st"
    by (simp add: showTabWithErrors_def)
qed

theorem showTabWithErrors_first_error_witness:
  "panels_scanned en_mk_tabs = tab_contents en_mk_tabs
   \<and> showTabWithErrors en_mk_tabs = switchToTab ''mk'' en_mk_tabs
   \<and> map p_active (tab_contents (showTabWithErrors en_mk_tabs)) = [False, True]
   \<and> map h_active (tab_headers (showTabWithErrors en_mk_tabs)) = [False, True]
   \<and> panels_scanned en_only_tabs = tab_contents en_only_tabs
   \<and> showTabWithErrors en_only_tabs = en_only_tabs"
proof -
  let ?en = "\<lparr>p_lang = ''en'', p_active = True,
          p_kids = [Node 2 ''form-row field-title'' False [],
                    Node 6 ''form-row field-body'' False []]\<rparr>"
  let ?mk = "\<lparr>p_lang = ''mk'', p_active = False,
          p_kids = [Node 8 ''form-row errors field-title_mk'' False
                      [Node 9 ''errorlist'' False []]]\<rparr>"
  have "tab_contents en_mk_tabs = [?en] @ ?mk # [] \<and> (\<forall>q \<in> set [?en]. \<not> has_error_marker q)
      \<and> has_error_marker ?mk"
    by (simp add: en_mk_tabs_def has_error_marker_def string_defs)
  with showTabWithErrors_first_error [of en_mk_tabs "[?en]" ?mk "[]"]
  have 1: "panels_scanned en_mk_tabs = [?en] @ [?mk]"
    "showTabWithErrors en_mk_tabs = switchToTab (p_lang ?mk) en_mk_tabs"
    by blast+
  have "\<forall>q \<in> set (tab_contents en_only_tabs). \<not> has_error_marker q"
    by (simp add: en_only_tabs_def has_error_marker_def string_defs)
  with showTabWithErrors_first_error [of en_only_tabs "[]" ?en "[]"]
  have 2: "panels_scanned en_only_tabs = tab_contents en_only_tabs"
    "showTabWithErrors en_only_tabs = en_only_tabs"
    by blast+
  from 1 2 show ?thesis
    by (simp add: switchToTab_simps en_mk_tabs_def languages_def tabHeader_def)
qed

subsection \<open>Elements that no move reaches\<close>

lemma ancestry_member:
  "x \<in> set (all_nodes forest) \<Longrightarrow> d \<in> node_id ` set (all_nodes (node_kids x)) \<Longrightarrow>
     (node_id x, d) \<in> ancestry forest"
  by (induction forest rule: all_nodes.induct) auto

lemma ancestry_cases:
  "(a, d) \<in> ancestry forest \<Longrightarrow>
     \<exists>x \<in> set (all_nodes forest). node_id x = a \<and> d \<in> node_id ` set (all_nodes (node_kids x))"
  by (induction forest rule: all_nodes.induct) auto

lemma kids_in_forest:
  "x \<in> set (all_nodes forest) \<Longrightarrow> set (all_nodes (node_kids x)) \<subseteq> set (all_nodes forest)"
  by (induction forest rule: all_nodes.induct) auto

lemma ids_without_class:
  "node_id ` set (all_nodes (without_class name kids)) \<subseteq> node_id ` set (all_nodes kids)"
proof (induction name kids rule: without_class.induct)
  case (1 name)
  then show ?case by simp
next
  case (2 name i cls hid kids rest)
  show ?case
  proof (cases "has_class name cls")
    case True
    from "2.IH"(1) [OF True]
    have "node_id ` set (all_nodes (without_class name rest)) \<subseteq> node_id ` set (all_nodes rest)" .
    also have "\<dots> \<subseteq> node_id ` set (all_nodes (Node i cls hid kids # rest))"
      by (simp add: image_Un) blast
    finally show ?thesis using True by simp
  next
    case False
    from "2.IH"(2) [OF False] "2.IH"(3) [OF False]
    have "insert i (node_id ` set (all_nodes (without_class name kids))
            \<union> node_id ` set (all_nodes (without_class name rest)))
          \<subseteq> insert i (node_id ` set (all_nodes kids) \<union> node_id ` set (all_nodes rest))"
      by blast
    then show ?thesis using False by (simp add: image_Un)
  qed
qed

lemma ancestry_without_class: "ancestry (without_class name kids) \<subseteq> ancestry kids"
proof (induction name kids rule: without_class.induct)
  case (1 name)
  then show ?case by simp
next
  case (2 name i cls hid kids rest)
  show ?case
  proof (cases "has_class name cls")
    case True
    with "2.IH"(1) show ?thesis by auto
  next
    case False
    from "2.IH"(2) [OF False] "2.IH"(3) [OF False] ids_without_class [of name kids] False
    show ?thesis by auto
  qed
qed

lemma ids_take_content:
  "node_id ` set (all_nodes (fst (take_content fieldset forest)))
     \<subseteq> node_id ` set (all_nodes forest)"
proof (induction fieldset forest rule: take_content.induct)
  case (1 fieldset)
  then show ?case by simp
next
  case (2 fieldset i cls hid kids rest)
  show ?case
  proof (cases "i = fieldset")
    case True
    with ids_without_class [of "''module''" kids] show ?thesis
      by (auto simp: Let_def)
  next
    case False
    have k: "node_id ` set (all_nodes (fst (take_content fieldset kids)))
               \<subseteq> node_id ` set (all_nodes kids)"
      by (rule "2.IH"(1) [OF False])
    have r: "node_id ` set (all_nodes (fst (take_content fieldset rest)))
               \<subseteq> node_id ` set (all_nodes rest)"
      by (rule "2.IH"(2) [OF False prod.collapse])
    have "fst (take_content fieldset (Node i cls hid kids # rest)) =
            Node i cls hid (fst (take_content fieldset kids)) # fst (take_content fieldset rest)"
      using False by (simp split: prod.splits)
    with k r show ?thesis by auto
  qed
qed

lemma ancestry_take_content:
  "ancestry (fst (take_content fieldset forest)) \<subseteq> ancestry forest"
proof (induction fieldset forest rule: take_content.induct)
  case (1 fieldset)
  then show ?case by simp
next
  case (2 fieldset i cls hid kids rest)
  show ?case
  proof (cases "i = fieldset")
    case True
    with ids_without_class [of "''module''" kids] ancestry_without_class [of "''module''" kids]
    show ?thesis
      by (auto simp: Let_def)
  next
    case False
    have k: "ancestry (fst (take_content fieldset kids)) \<subseteq> ancestry kids"
      by (rule "2.IH"(1) [OF False])
    have r: "ancestry (fst (take_content fieldset rest)) \<subseteq> ancestry rest"
      by (rule "2.IH"(2) [OF False prod.collapse])
    have "fst (take_content fieldset (Node i cls hid kids # rest)) =
            Node i cls hid (fst (take_content fieldset kids)) # fst (take_content fieldset rest)"
      using False by (simp split: prod.splits)
    with k r ids_take_content [of fieldset kids] show ?thesis by auto
  qed
qed

text \<open>
  An element stays in the forest, with all it contains, when the element whose content is
  taken is neither the element itself, nor inside it, nor around it.
\<close>

lemma take_content_keeps:
  assumes "g \<in> set (all_nodes forest)"
    and "fieldset \<notin> node_id ` set (all_nodes [g])"
    and "(fieldset, node_id g) \<notin> ancestry forest"
  shows "g \<in> set (all_nodes (fst (take_content fieldset forest)))"
  using assms
proof (induction fieldset forest rule: take_content.induct)
  case (1 fieldset)
  then show ?case by simp
next
  case (2 fieldset i cls hid kids rest)
  from "2.prems"(3) have nk: "i = fieldset \<Longrightarrow> node_id g \<notin> node_id ` set (all_nodes kids)"
    and ak: "(fieldset, node_id g) \<notin> ancestry kids"
    and ar: "(fieldset, node_id g) \<notin> ancestry rest"
    by auto
  show ?case
  proof (cases "i = fieldset")
    case True
    from "2.prems"(2) True have "g \<noteq> Node i cls hid kids"
      by (cases g) auto
    moreover from nk [OF True] have "g \<notin> set (all_nodes kids)" by auto
    ultimately have "g \<in> set (all_nodes rest)"
      using "2.prems"(1) by auto
    with True show ?thesis by (simp add: Let_def)
  next
    case False
    have eq: "fst (take_content fieldset (Node i cls hid kids # rest)) =
            Node i cls hid (fst (take_content fieldset kids)) # fst (take_content fieldset rest)"
      using False by (simp split: prod.splits)
    from "2.prems"(1)
    consider "g = Node i cls hid kids" | "g \<in> set (all_nodes kids)" | "g \<in> set (all_nodes rest)"
      by auto
    then show ?thesis
    proof cases
      case 1
      with "2.prems"(2) have "fieldset \<notin> node_id ` set (all_nodes kids)" by auto
      then have "take_content fieldset kids = (kids, [])" by (rule take_content_absent)
      with 1 show ?thesis unfolding eq by simp
    next
      case 2
      from "2.IH"(1) [OF False 2 "2.prems"(2) ak] show ?thesis
        unfolding eq by simp
    next
      case 3
      from "2.IH"(2) [OF False prod.collapse 3 "2.prems"(2) ar] show ?thesis
        unfolding eq by simp
    qed
  qed
qed

lemma move_fieldsets_keeps:
  assumes "g \<in> set (all_nodes els)"
    and "\<forall>f \<in> set fieldsets. f \<notin> node_id ` set (all_nodes [g])
                               \<and> (f, node_id g) \<notin> ancestry els"
  shows "g \<in> set (all_nodes (snd (snd (move_fieldsets fieldsets (panels, kids, els)))))
         \<and> ancestry (snd (snd (move_fieldsets fieldsets (panels, kids, els)))) \<subseteq> ancestry els"
  using assms
proof (induction fieldsets arbitrary: panels kids els)
  case Nil
  then show ?case by simp
next
  case (Cons fieldset fieldsets)
  let ?P = "take_in_panels fieldset panels"
  let ?K = "take_content fieldset kids"
  let ?E = "take_content fieldset els"
  let ?kids1 = "fst ?K @ snd ?P @ snd ?K @ snd ?E"
  have step: "move_fieldsets (fieldset # fieldsets) (panels, kids, els)
          = move_fieldsets fieldsets (fst ?P, ?kids1, fst ?E)"
    by (simp split: prod.splits)
  from Cons.prems have here: "fieldset \<notin> node_id ` set (all_nodes [g])"
    "(fieldset, node_id g) \<notin> ancestry els"
    by simp_all
  from take_content_keeps [OF Cons.prems(1) here]
  have g1: "g \<in> set (all_nodes (fst ?E))" .
  have sub: "ancestry (fst ?E) \<subseteq> ancestry els"
    by (rule ancestry_take_content)
  with Cons.prems(2)
  have rest: "\<forall>f \<in> set fieldsets. f \<notin> node_id ` set (all_nodes [g])
                               \<and> (f, node_id g) \<notin> ancestry (fst ?E)"
    by auto
  from Cons.IH [OF g1 rest, of "fst ?P" ?kids1] sub show ?case
    unfolding step by blast
qed

lemma create_contents_keeps:
  assumes "g \<in> set (all_nodes els)"
    and "\<forall>f \<in> grouped lg langs. f \<notin> node_id ` set (all_nodes [g])
                               \<and> (f, node_id g) \<notin> ancestry els"
  shows "g \<in> set (all_nodes (snd (create_contents langs lg (acc, els))))"
  using assms
proof (induction langs arbitrary: acc els)
  case Nil
  then show ?case by simp
next
  case (Cons lang langs)
  let ?g = "langGroups_of lg (lang_code lang)"
  have grouped: "grouped lg (lang # langs) = set ?g \<union> grouped lg langs"
    by (simp add: grouped_def)
  show ?case
  proof (cases "?g = []")
    case True
    from Cons.prems(2) have "\<forall>f \<in> grouped lg langs. f \<notin> node_id ` set (all_nodes [g])
                               \<and> (f, node_id g) \<notin> ancestry els"
      unfolding grouped by blast
    from Cons.IH [OF Cons.prems(1) this, of acc] True show ?thesis by simp
  next
    case False
    let ?M = "move_fieldsets ?g (acc, [], els)"
    let ?acc2 = "fst ?M @ [\<lparr>p_lang = lang_code lang, p_active = False,
                            p_kids = fst (snd ?M)\<rparr>]"
    have step: "create_contents (lang # langs) lg (acc, els)
                  = create_contents langs lg (?acc2, snd (snd ?M))"
      using False by (simp split: prod.splits)
    from Cons.prems(2) have here: "\<forall>f \<in> set ?g. f \<notin> node_id ` set (all_nodes [g])
                               \<and> (f, node_id g) \<notin> ancestry els"
      unfolding grouped by blast
    from move_fieldsets_keeps [OF Cons.prems(1) here, of acc "[]"]
    have g1: "g \<in> set (all_nodes (snd (snd ?M)))"
      and sub: "ancestry (snd (snd ?M)) \<subseteq> ancestry els"
      by simp_all
    from Cons.prems(2) sub
    have "\<forall>f \<in> grouped lg langs. f \<notin> node_id ` set (all_nodes [g])
                               \<and> (f, node_id g) \<notin> ancestry (snd (snd ?M))"
      unfolding grouped by blast
    from Cons.IH [OF g1 this, of ?acc2] show ?thesis
      unfolding step .
  qed
qed

subsection \<open>Marked groups of no known language\<close>

text \<open>
  A class \<open>lang-constructor\<close> makes the categorising loop read \<open>langGroups['constructor']\<close>,
  which is the inherited function \<open>Object\<close>; calling its missing \<open>push\<close> raises.
\<close>

lemma init_en_constructor_form:
  "initMultilingualTabs (page en_constructor_form) = Inl TypeError"
  by (simp add: page_def en_constructor_form_def init_defs string_defs)

lemma all_nodes_single: "all_nodes [n] = n # all_nodes (node_kids n)"
  by (cases n) simp

lemma same_element:
  assumes "well_formed st"
    and "x \<in> set (all_nodes (document st))" and "y \<in> set (all_nodes (document st))"
    and "node_id x = node_id y"
  shows "x = y"
proof -
  from assms(1) have "inj_on node_id (set (all_nodes (document st)))"
    by (simp add: well_formed_def distinct_map)
  from inj_onD [OF this assms(4) assms(2) assms(3)] show ?thesis .
qed

text \<open>
  Claim C9, amended. Take a freshly loaded page, well formed and without tab markup of
  its own, whose marked groups have their classes separated by spaces and no language
  class naming a property of \<open>Object.prototype\<close>, and a stored selection that the selector
  of line 97 can carry. Let a marked group have a known language, and let \<open>g\<close> be a marked
  group that has no known language, with no marked group of a known language inside it and
  itself inside none. Then \<open>initMultilingualTabs\<close> returns, and afterwards \<open>g\<close> is in the
  form exactly as it was (same class attribute, same visibility, same content all the way
  down), no element of a panel has its identity, at least one header and one panel have
  been added, and the only elements whose visibility has changed are the marked groups of
  a known language.
\<close>

theorem unknown_group_untouched:
  assumes fresh: "fresh st" and wf: "well_formed st" and plain: "no_tab_markup st"
    and stored: "selector_safe (getSelectedTab st)"
    and classes: "\<forall>n \<in> set (select_lang_tab st).
                    space_separated (node_class n) \<and> no_inherited_name n"
    and g: "g \<in> set (select_lang_tab st)"
    and unknown: "\<forall>code \<in> known_codes. \<not> has_lang code g"
    and page: "\<exists>n \<in> set (select_lang_tab st). \<exists>code \<in> known_codes. has_lang code n"
    and apart: "\<forall>n \<in> set (select_lang_tab st).
                  (\<exists>code \<in> known_codes. has_lang code n) \<longrightarrow> \<not> inside g n \<and> \<not> inside n g"
  shows "\<exists>st'. initMultilingualTabs st = Inr st'
            \<and> g \<in> set (all_nodes (elements st'))
            \<and> node_id g \<notin> node_id ` set (all_nodes (concat (map p_kids (tab_contents st'))))
            \<and> length (tab_headers st) < length (tab_headers st')
            \<and> length (tab_contents st) < length (tab_contents st')
            \<and> sigs (document st') =
                image_mset
                  (hide_all {node_id n |n. n \<in> set (select_lang_tab st)
                                           \<and> (\<exists>code \<in> known_codes. has_lang code n)})
                  (sigs (document st))"
proof -
  let ?sel = "select_lang_tab st"
  let ?doc = "all_nodes (document st)"
  from fresh have doc: "document st = elements st"
    by (simp add: document_def fresh_def)
  have sel_doc: "n \<in> set ?doc" if "n \<in> set ?sel" for n
    using that by (simp add: set_select_lang_tab)
  have known: "(\<exists>c \<in> known_codes. matches c n) = (\<exists>c \<in> known_codes. has_lang c n)"
    if "n \<in> set ?sel" for n
  proof -
    from that classes have "space_separated (node_class n)" by blast
    then show ?thesis
      by (auto simp: matches_has_lang known_not_tab)
  qed
  have no_error: "initMultilingualTabs st \<noteq> Inl e" for e
  proof
    assume "initMultilingualTabs st = Inl e"
    from initMultilingualTabs_Inl [OF this] obtain n c where n: "n \<in> set ?sel"
      and c: "c \<in> set (class_lang_codes (node_class n))" "c \<in> set object_prototype_keys"
      by blast
    from n classes have "space_separated (node_class n)" and inh: "no_inherited_name n"
      by blast+
    with c(1) have "has_lang c n"
      using matches_has_lang [of n c] by (simp add: matches_def)
    with inh c(2) show False
      by (simp add: no_inherited_name_def list_all_iff)
  qed
  then obtain st' where init: "initMultilingualTabs st = Inr st'"
    by (cases "initMultilingualTabs st") auto
  from g have some: "?sel \<noteq> []" by auto
  note res = initMultilingualTabs_result [OF init some]

  from page obtain n code where n: "n \<in> set ?sel" "code \<in> known_codes" "has_lang code n"
    by blast
  with known [OF n(1)] obtain code' where "code' \<in> known_codes" "matches code' n"
    by blast
  moreover from this obtain lang where "lang \<in> set languages" "lang_code lang = code'"
    by (auto simp: known_codes_def)
  ultimately
  have "filter (\<lambda>lang. \<exists>n \<in> set ?sel. matches (lang_code lang) n) languages \<noteq> []"
    using n(1) by (auto simp: filter_empty_conv)
  then have more: "0 < length (map lang_code
       (filter (\<lambda>lang. \<exists>n \<in> set ?sel. matches (lang_code lang) n) languages))"
    by simp
  have "length (map h_lang (tab_headers st')) > length (map h_lang (tab_headers st))"
    unfolding res(1) using more by simp
  then have hs: "length (tab_headers st) < length (tab_headers st')" by simp
  have "length (map p_lang (tab_contents st')) > length (map p_lang (tab_contents st))"
    unfolding res(2) using more by simp
  then have ps: "length (tab_contents st) < length (tab_contents st')" by simp

  have "{node_id n |n. n \<in> set ?sel \<and> (\<exists>c \<in> known_codes. matches c n)}
          = {node_id n |n. n \<in> set ?sel \<and> (\<exists>c \<in> known_codes. has_lang c n)}"
    using known by blast
  with res(3) [OF wf]
  have sg: "sigs (document st') =
                image_mset
                  (hide_all {node_id n |n. n \<in> set ?sel
                                           \<and> (\<exists>code \<in> known_codes. has_lang code n)})
                  (sigs (document st))"
    by simp

  obtain lg where cat: "categorize ?sel (init_langGroups languages) = Inr lg"
    using init some
    by (cases "categorize ?sel (init_langGroups languages)")
       (simp_all add: initMultilingualTabs_def Let_def)
  obtain panels els where
    cc: "create_contents languages lg (tab_contents st, elements st) = (panels, els)"
    by (cases "create_contents languages lg (tab_contents st, elements st)")
  from initMultilingualTabs_Inr [OF some cat cc] init
  have els: "elements st' = els"
    by (auto simp: switchToTab_elements)
  from sel_doc [OF g] have g_doc: "g \<in> set ?doc" .
  have out: "f \<notin> node_id ` set (all_nodes [g]) \<and> (f, node_id g) \<notin> ancestry (elements st)"
    if "f \<in> grouped lg languages" for f
  proof -
    from that obtain n where n: "n \<in> set ?sel" "\<exists>c \<in> known_codes. matches c n"
      and f: "f = node_id n"
      unfolding grouped_page [OF cat] by blast
    from n have kn: "\<exists>c \<in> known_codes. has_lang c n"
      by (simp add: known)
    with apart n(1) have ng: "\<not> inside g n" and gn: "\<not> inside n g"
      by blast+
    from sel_doc [OF n(1)] have n_doc: "n \<in> set ?doc" .
    have "node_id n \<noteq> node_id g"
    proof
      assume "node_id n = node_id g"
      from same_element [OF wf n_doc g_doc this] kn unknown show False by blast
    qed
    moreover have "node_id n \<notin> node_id ` set (all_nodes (node_kids g))"
    proof
      assume "node_id n \<in> node_id ` set (all_nodes (node_kids g))"
      then obtain m where m: "m \<in> set (all_nodes (node_kids g))" "node_id m = node_id n"
        by auto
      from kids_in_forest [OF g_doc] m(1) have "m \<in> set ?doc" by blast
      from same_element [OF wf this n_doc m(2)] m(1) ng show False
        by (simp add: inside_def)
    qed
    moreover have "(node_id n, node_id g) \<notin> ancestry (elements st)"
    proof
      assume "(node_id n, node_id g) \<in> ancestry (elements st)"
      from ancestry_cases [OF this] obtain x where x: "x \<in> set ?doc" "node_id x = node_id n"
        and d: "node_id g \<in> node_id ` set (all_nodes (node_kids x))"
        unfolding doc by blast
      from same_element [OF wf x(1) n_doc x(2)] have xn: "x = n" .
      from d obtain y where y: "y \<in> set (all_nodes (node_kids n))" "node_id y = node_id g"
        unfolding xn by auto
      from kids_in_forest [OF n_doc] y(1) have "y \<in> set ?doc" by blast
      from same_element [OF wf this g_doc y(2)] y(1) gn show False
        by (simp add: inside_def)
    qed
    ultimately show ?thesis
      unfolding f by (simp add: all_nodes_single)
  qed
  from g_doc have "g \<in> set (all_nodes (elements st))"
    unfolding doc .
  from create_contents_keeps [OF this, of lg languages "tab_contents st"] out cc
  have here: "g \<in> set (all_nodes (elements st'))"
    unfolding els by simp

  from wf have "distinct (map node_id (all_nodes (document st)))"
    by (simp add: well_formed_def)
  from distinct_of_sigs [OF sg this]
  have "distinct (map node_id (all_nodes (concat (map p_kids (tab_contents st')))) @
                  map node_id (all_nodes (elements st')))"
    by (simp add: document_def all_nodes_append)
  then have "node_id ` set (all_nodes (concat (map p_kids (tab_contents st'))))
               \<inter> node_id ` set (all_nodes (elements st')) = {}"
    by simp
  with here
  have apart': "node_id g \<notin> node_id ` set (all_nodes (concat (map p_kids (tab_contents st'))))"
    by blast
  from init here apart' hs ps sg show ?thesis
    by (intro exI conjI)
qed

theorem unknown_group_untouched_witness:
  "\<exists>st'. initMultilingualTabs (page en_fr_form) = Inr st'
     \<and> Node 4 ''module aligned lang-tab lang-fr'' False
         [Node 5 ''form-row field-title_fr'' False []] \<in> set (all_nodes (elements st'))
     \<and> 4 \<notin> node_id ` set (all_nodes (concat (map p_kids (tab_contents st'))))
     \<and> 0 < length (tab_headers st') \<and> 0 < length (tab_contents st')"
proof -
  let ?st = "page en_fr_form"
  let ?en = "Node 1 ''module aligned lang-tab lang-en'' False
               [Node 2 ''form-row field-title'' False []]"
  let ?fr = "Node 4 ''module aligned lang-tab lang-fr'' False
               [Node 5 ''form-row field-title_fr'' False []]"
  have doc: "document ?st = en_fr_form"
    by (simp add: page_def document_def)
  have sel: "select_lang_tab ?st = [?en, ?fr]"
    unfolding select_lang_tab_def doc
    by (simp add: en_fr_form_def string_defs)
  have fresh: "fresh ?st" and wf: "well_formed ?st"
    and stored: "selector_safe (getSelectedTab ?st)"
    unfolding well_formed_def doc
    by (simp_all add: page_defs selector_safe_def getSelectedTab_def)
  have plain: "no_tab_markup ?st"
    unfolding no_tab_markup_def doc
    by (simp add: en_fr_form_def string_defs)
  have classes: "\<forall>n \<in> set (select_lang_tab ?st).
                    space_separated (node_class n) \<and> no_inherited_name n"
    unfolding sel
    by (simp add: space_separated_def no_inherited_name_def object_prototype_keys_def
          has_lang_def string_defs)
  have g: "?fr \<in> set (select_lang_tab ?st)"
    unfolding sel by simp
  have unknown: "\<forall>code \<in> known_codes. \<not> has_lang code ?fr"
    by (simp add: has_lang_def known_codes_eq string_defs)
  have page: "\<exists>n \<in> set (select_lang_tab ?st). \<exists>code \<in> known_codes. has_lang code n"
    unfolding sel by (simp add: has_lang_def known_codes_eq string_defs)
  have apart: "\<forall>n \<in> set (select_lang_tab ?st).
                  (\<exists>code \<in> known_codes. has_lang code n) \<longrightarrow> \<not> inside ?fr n \<and> \<not> inside n ?fr"
    unfolding sel by (simp add: has_lang_def known_codes_eq inside_def string_defs)
  from unknown_group_untouched [OF fresh wf plain stored classes g unknown page apart]
  obtain st' where "initMultilingualTabs ?st = Inr st'"
    and "?fr \<in> set (all_nodes (elements st'))"
    and "node_id ?fr \<notin> node_id ` set (all_nodes (concat (map p_kids (tab_contents st'))))"
    and "length (tab_headers ?st) < length (tab_headers st')"
    and "length (tab_contents ?st) < length (tab_contents st')"
    by blast
  then show ?thesis
    by (simp add: page_def)
qed

text \<open>
  The claim as stated fails on \<open>page fr_around_en_form\<close>. Its outer group is marked and
  has no known language, and the group nested in it is marked and English. After
  \<open>initMultilingualTabs\<close> the outer group is not as it was: the nested group is emptied and
  hidden, and the field row that was inside it is in the English panel. It also fails on
  \<open>page en_constructor_form\<close>, whose second group is marked and has no known language:
  \<open>initMultilingualTabs\<close> raises the \<open>TypeError\<close>, so no header and no panel is built.
\<close>

theorem unknown_group_counterexample:
  "(\<exists>st'. initMultilingualTabs (page fr_around_en_form) = Inr st'
      \<and> elements st' =
          [Node 1 ''lang-tab lang-fr'' False
             [Node 2 ''form-row field-title_fr'' False [],
              Node 3 ''lang-tab lang-en'' True []]]
      \<and> map p_lang (tab_contents st') = [''en'']
      \<and> map p_kids (tab_contents st') = [[Node 4 ''form-row field-title'' False []]])
   \<and> select_lang_tab (page fr_around_en_form) =
       [Node 1 ''lang-tab lang-fr'' False
          [Node 2 ''form-row field-title_fr'' False [],
           Node 3 ''lang-tab lang-en'' False [Node 4 ''form-row field-title'' False []]],
        Node 3 ''lang-tab lang-en'' False [Node 4 ''form-row field-title'' False []]]
   \<and> \<not> has_lang ''en'' (hd (select_lang_tab (page fr_around_en_form)))
   \<and> \<not> has_lang ''mk'' (hd (select_lang_tab (page fr_around_en_form)))
   \<and> has_lang ''en'' (last (select_lang_tab (page fr_around_en_form)))
   \<and> marked (elements (page en_constructor_form) ! 0)
   \<and> has_lang ''en'' (elements (page en_constructor_form) ! 0)
   \<and> marked (elements (page en_constructor_form) ! 1)
   \<and> \<not> has_lang ''en'' (elements (page en_constructor_form) ! 1)
   \<and> \<not> has_lang ''mk'' (elements (page en_constructor_form) ! 1)
   \<and> initMultilingualTabs (page en_constructor_form) = Inl TypeError"
  by (simp add: init_en_constructor_form)
     (simp add: page_defs init_defs marked_def has_lang_def string_defs tab_defs)

subsection \<open>The built tabs have distinct languages\<close>

text \<open>
  The tabs that \<open>initMultilingualTabs\<close> builds on a freshly loaded page have pairwise
  distinct languages, the same for the headers and the panels, and no handler changes the
  languages. So the premise of distinct languages in the statement about \<open>switchToTab\<close>
  holds in every state the script reaches from a freshly loaded page.
\<close>

lemma built_tabs_distinct:
  assumes "fresh st" and init: "initMultilingualTabs st = Inr st'"
  shows "distinct (map h_lang (tab_headers st'))"
    and "distinct (map p_lang (tab_contents st'))"
    and "map h_lang (tab_headers st') = map p_lang (tab_contents st')"
proof -
  from assms(1) have empty: "tab_headers st = []" "tab_contents st = []"
    by (simp_all add: fresh_def)
  have "distinct (map h_lang (tab_headers st')) \<and> distinct (map p_lang (tab_contents st'))
        \<and> map h_lang (tab_headers st') = map p_lang (tab_contents st')"
  proof (cases "select_lang_tab st = []")
    case True
    with init have "st' = st" by (simp add: initMultilingualTabs_def)
    with empty show ?thesis by simp
  next
    case False
    note res = initMultilingualTabs_result [OF init False]
    show ?thesis
      unfolding res(1) res(2) empty
      by (simp add: distinct_map_filter distinct_lang_codes)
  qed
  then show "distinct (map h_lang (tab_headers st'))"
    and "distinct (map p_lang (tab_contents st'))"
    and "map h_lang (tab_headers st') = map p_lang (tab_contents st')"
    by simp_all
qed

lemma switchToTab_langs:
  "map h_lang (tab_headers (switchToTab langCode st)) = map h_lang (tab_headers st)"
  "map p_lang (tab_contents (switchToTab langCode st)) = map p_lang (tab_contents st)"
  by (simp_all add: switchToTab_simps comp_def)

lemma each_tabContent_langs:
  "map h_lang (tab_headers (snd (each_tabContent ps st))) = map h_lang (tab_headers st)
   \<and> map p_lang (tab_contents (snd (each_tabContent ps st))) = map p_lang (tab_contents st)"
  by (induction ps) (auto simp: switchToTab_langs split: prod.splits)

lemma handlers_keep_langs:
  "map h_lang (tab_headers (click_header i st)) = map h_lang (tab_headers st)"
  "map p_lang (tab_contents (click_header i st)) = map p_lang (tab_contents st)"
  "map h_lang (tab_headers (snd (keydown e st))) = map h_lang (tab_headers st)"
  "map p_lang (tab_contents (snd (keydown e st))) = map p_lang (tab_contents st)"
  "map h_lang (tab_headers (showTabWithErrors st)) = map h_lang (tab_headers st)"
  "map p_lang (tab_contents (showTabWithErrors st)) = map p_lang (tab_contents st)"
  by (simp_all add: click_header_def keydown_def showTabWithErrors_def saveSelectedTab_def
        Let_def switchToTab_langs each_tabContent_langs)

subsection \<open>When the fallback to English shows a tab\<close>

text \<open>
  On a freshly loaded page with a marked English group, a stored selection that has no
  header makes \<open>initMultilingualTabs\<close> activate the English header and panel, and
  nothing else. Without an English group it activates nothing, as the evaluation on
  \<open>page mk_only_form\<close> above shows.
\<close>

lemma init_fallback_en:
  assumes fresh: "fresh st" and init: "initMultilingualTabs st = Inr st'"
    and en: "\<exists>n \<in> set (select_lang_tab st). matches ''en'' n"
    and stored: "getSelectedTab st \<notin> h_lang ` set (tab_headers st')"
  shows "map h_lang (filter h_active (tab_headers st')) = [''en'']"
    and "map p_lang (filter p_active (tab_contents st')) = [''en'']"
proof -
  let ?has = "\<lambda>code. \<exists>n \<in> set (select_lang_tab st). matches code n"
  from en have some: "select_lang_tab st \<noteq> []"
    by auto
  from fresh have empty: "tab_headers st = []" "tab_contents st = []"
    by (simp_all add: fresh_def)
  note res = initMultilingualTabs_result [OF init some]
  from initMultilingualTabs_active [OF init some] stored
  have ha: "\<forall>h \<in> set (tab_headers st'). h_active h = (h_lang h = ''en'')"
    and pa: "\<forall>p \<in> set (tab_contents st'). p_active p = (p_lang p = ''en'')"
    by simp_all
  have langs: "filter (\<lambda>k. k = ''en'')
                 (map lang_code (filter (\<lambda>lang. ?has (lang_code lang)) languages)) = [''en'']"
    using en by (simp add: languages_def)
  from ha have "filter h_active (tab_headers st') = filter (\<lambda>h. h_lang h = ''en'') (tab_headers st')"
    by (auto intro: filter_cong)
  then have "map h_lang (filter h_active (tab_headers st')) =
               filter (\<lambda>k. k = ''en'') (map h_lang (tab_headers st'))"
    by (simp add: filter_map comp_def)
  then show "map h_lang (filter h_active (tab_headers st')) = [''en'']"
    unfolding res(1) empty using langs by simp
  from pa have "filter p_active (tab_contents st') = filter (\<lambda>p. p_lang p = ''en'') (tab_contents st')"
    by (auto intro: filter_cong)
  then have "map p_lang (filter p_active (tab_contents st')) =
               filter (\<lambda>k. k = ''en'') (map p_lang (tab_contents st'))"
    by (simp add: filter_map comp_def)
  then show "map p_lang (filter p_active (tab_contents st')) = [''en'']"
    unfolding res(2) empty using langs by simp
qed

end
